theory Spec2Isabelle
  imports Main
begin

section \<open>Values, rows and the database\<close>

text \<open>
  JavaScript values as far as the authentication code handles them. An object is the
  list of its own properties in insertion order; a timestamp is a number.
\<close>

datatype jsval =
    JUndefined
  | JNull
  | JBool bool
  | JNum nat
  | JStr string
  | JArr "jsval list"
  | JObj "(string \<times> jsval) list"

text \<open>Property read \<open>v.k\<close>: \<open>undefined\<close> for a missing property of an object.\<close>

fun get :: "jsval \<Rightarrow> string \<Rightarrow> jsval" where
  "get (JObj ps) k = (case map_of ps k of None \<Rightarrow> JUndefined | Some v \<Rightarrow> v)"
| "get _ k = JUndefined"

text \<open>The truthiness test of \<open>if (v)\<close>, \<open>!v\<close> and \<open>a && b\<close>.\<close>

fun truthy :: "jsval \<Rightarrow> bool" where
  "truthy JUndefined = False"
| "truthy JNull = False"
| "truthy (JBool b) = b"
| "truthy (JNum n) = (n \<noteq> 0)"
| "truthy (JStr s) = (s \<noteq> [])"
| "truthy (JArr _) = True"
| "truthy (JObj _) = True"

text \<open>The names of the own properties of an object.\<close>

fun keys :: "jsval \<Rightarrow> string list" where
  "keys (JObj ps) = map fst ps"
| "keys _ = []"

text \<open>
  Rest destructuring \<open>const { k: _, ...rest } = v\<close>: every own property but \<open>k\<close>.
\<close>

fun omit :: "string \<Rightarrow> jsval \<Rightarrow> jsval" where
  "omit k (JObj ps) = JObj (filter (\<lambda>p. fst p \<noteq> k) ps)"
| "omit k v = v"

text \<open>A nullable column read into a JavaScript value.\<close>

fun nullable :: "('a \<Rightarrow> jsval) \<Rightarrow> 'a option \<Rightarrow> jsval" where
  "nullable f None = JNull"
| "nullable f (Some x) = f x"

text \<open>
  The rows of the three tables the code reads and writes. The column names are those
  of the \<open>select\<close> lists of the source, prefixed with the table's initial.
\<close>

record user =
  u_id :: nat
  u_username :: string
  u_email :: string
  u_password :: string
  u_fullName :: "string option"
  u_phone :: "string option"
  u_avatar :: "string option"
  u_organizationId :: nat
  u_roleId :: nat
  u_isActive :: bool
  u_lastLogin :: "nat option"
  u_createdAt :: nat
  u_updatedAt :: nat

record organization =
  o_id :: nat
  o_name :: string
  o_subdomain :: string
  o_settings :: jsval
  o_isActive :: bool
  o_createdAt :: nat
  o_updatedAt :: nat

record userRole =
  r_id :: nat
  r_name :: string
  r_description :: "string option"
  r_permissions :: "string list option"
  r_organizationId :: nat

text \<open>The write statements the database has executed, oldest first.\<close>

datatype db_write =
    InsertOrganization nat
  | InsertUserRole nat
  | InsertUser nat
  | UpdateLastLogin jsval

text \<open>
  The database: the three tables in the order in which a scan returns their rows, the
  last value each identifier sequence has issued, and the journal of executed writes.
\<close>

record db =
  users :: "user list"
  organizations :: "organization list"
  userRoles :: "userRole list"
  users_id_seq :: nat
  organizations_id_seq :: nat
  user_roles_id_seq :: nat
  journal :: "db_write list"

text \<open>What a \<open>throw\<close> or a rejected promise carries.\<close>

datatype error =
    StorageError
  | BcryptError
  | TypeError
  | Error string

text \<open>The database statements of the source, one name per call site.\<close>

datatype db_call =
    AuthSelect
  | AuthUpdate
  | RegSelectExisting
  | RegInsertOrganization
  | RegInsertRole
  | RegSelectRole
  | RegInsertUser
  | RegSelectJoined
  | RoleSelect
  | ContextSelect

text \<open>
  What the code takes from outside: which database statements of the call are rejected
  with a storage error (a rejected statement has no effect), the bcryptjs functions
  \<open>hash\<close> and \<open>compare\<close> (either may reject), the clock, and the column defaults of the
  schema for the columns an insert leaves out.
\<close>

record env =
  fails :: "db_call \<Rightarrow> bool"
  bcrypt_hash :: "string \<Rightarrow> nat \<Rightarrow> error + string"
  bcrypt_compare :: "string \<Rightarrow> string \<Rightarrow> error + bool"
  now :: nat
  default_isActive :: bool
  default_settings :: jsval

text \<open>One \<open>console.error(label, error)\<close> line.\<close>

type_synonym console = "(string \<times> error) list"

section \<open>AuthService\<close>

definition hashPassword :: "env \<Rightarrow> string \<Rightarrow> error + string" where
  "hashPassword e password = (let saltRounds = 12 in bcrypt_hash e password saltRounds)"

definition comparePassword :: "env \<Rightarrow> string \<Rightarrow> string \<Rightarrow> error + bool" where
  "comparePassword e password hash = bcrypt_compare e password hash"

text \<open>The nested \<open>organization: { ... }\<close> of the three joined select lists.\<close>

definition organization_fields :: "organization \<Rightarrow> jsval" where
  "organization_fields org = JObj
     [(''id'', JNum (o_id org)),
      (''name'', JStr (o_name org)),
      (''subdomain'', JStr (o_subdomain org)),
      (''settings'', o_settings org),
      (''isActive'', JBool (o_isActive org)),
      (''createdAt'', JNum (o_createdAt org)),
      (''updatedAt'', JNum (o_updatedAt org))]"

text \<open>The select list of \<open>authenticateUser\<close>: it includes the password column.\<close>

definition auth_fields :: "user \<Rightarrow> organization \<Rightarrow> jsval" where
  "auth_fields u org = JObj
     [(''id'', JNum (u_id u)),
      (''username'', JStr (u_username u)),
      (''email'', JStr (u_email u)),
      (''password'', JStr (u_password u)),
      (''fullName'', nullable JStr (u_fullName u)),
      (''phone'', nullable JStr (u_phone u)),
      (''avatar'', nullable JStr (u_avatar u)),
      (''organizationId'', JNum (u_organizationId u)),
      (''roleId'', JNum (u_roleId u)),
      (''isActive'', JBool (u_isActive u)),
      (''lastLogin'', nullable JNum (u_lastLogin u)),
      (''createdAt'', JNum (u_createdAt u)),
      (''updatedAt'', JNum (u_updatedAt u)),
      (''organization'', organization_fields org)]"

text \<open>
  The select list of \<open>registerUser\<close> and of \<open>loadUserContext\<close>: no password column.
\<close>

definition identity_fields :: "user \<Rightarrow> organization \<Rightarrow> jsval" where
  "identity_fields u org = JObj
     [(''id'', JNum (u_id u)),
      (''username'', JStr (u_username u)),
      (''email'', JStr (u_email u)),
      (''fullName'', nullable JStr (u_fullName u)),
      (''phone'', nullable JStr (u_phone u)),
      (''avatar'', nullable JStr (u_avatar u)),
      (''organizationId'', JNum (u_organizationId u)),
      (''roleId'', JNum (u_roleId u)),
      (''isActive'', JBool (u_isActive u)),
      (''lastLogin'', nullable JNum (u_lastLogin u)),
      (''createdAt'', JNum (u_createdAt u)),
      (''updatedAt'', JNum (u_updatedAt u)),
      (''organization'', organization_fields org)]"

text \<open>
  \<open>select(..).from(users).innerJoin(organizations, users.organizationId = organizations.id)
  .where(users.email = email and users.isActive and organizations.isActive).limit(1)\<close>
\<close>

definition select_auth :: "db \<Rightarrow> string \<Rightarrow> jsval list" where
  "select_auth s email_arg = take 1
     [auth_fields u org. u \<leftarrow> users s, org \<leftarrow> organizations s,
        u_organizationId u = o_id org,
        u_email u = email_arg \<and> u_isActive u = True \<and> o_isActive org = True]"

text \<open>\<open>update(users).set({ lastLogin: when }).where(users.id = uid)\<close>\<close>

definition update_lastLogin :: "db \<Rightarrow> jsval \<Rightarrow> nat \<Rightarrow> db" where
  "update_lastLogin s uid when_arg =
     s\<lparr>users := map (\<lambda>u. if JNum (u_id u) = uid then u\<lparr>u_lastLogin := Some when_arg\<rparr> else u)
                    (users s),
       journal := journal s @ [UpdateLastLogin uid]\<rparr>"

text \<open>
  The body of the \<open>try\<close> block of \<open>authenticateUser\<close>: the value returned or the error
  thrown, with the database as the statements left it. The password column is a string;
  for any other value of the property bcryptjs rejects its arguments.
\<close>

definition authenticateUser_try :: "env \<Rightarrow> db \<Rightarrow> string \<Rightarrow> string \<Rightarrow> (error + jsval) \<times> db" where
  "authenticateUser_try e s email_arg password_arg =
     (if fails e AuthSelect then (Inl StorageError, s)
      else case select_auth s email_arg of
        [] \<Rightarrow> (Inr JNull, s)
      | userWithOrg # _ \<Rightarrow>
          (case get userWithOrg ''password'' of
             JStr hash \<Rightarrow>
               (case comparePassword e password_arg hash of
                  Inl err \<Rightarrow> (Inl err, s)
                | Inr isPasswordValid \<Rightarrow>
                    if \<not> isPasswordValid then (Inr JNull, s)
                    else if fails e AuthUpdate then (Inl StorageError, s)
                    else (Inr (omit ''password'' userWithOrg),
                          update_lastLogin s (get userWithOrg ''id'') (now e)))
           | _ \<Rightarrow> (Inl BcryptError, s)))"

text \<open>
  \<open>authenticateUser\<close>: the \<open>catch\<close> logs the error and returns \<open>null\<close>. The result is the
  returned value, the database afterwards and the lines written to the console.
\<close>

definition authenticateUser :: "env \<Rightarrow> db \<Rightarrow> string \<Rightarrow> string \<Rightarrow> jsval \<times> db \<times> console" where
  "authenticateUser e s email_arg password_arg =
     (case authenticateUser_try e s email_arg password_arg of
        (Inr v, s') \<Rightarrow> (v, s', [])
      | (Inl err, s') \<Rightarrow> (JNull, s', [(''Authentication error:'', err)]))"

text \<open>The argument of \<open>registerUser\<close>; the fields marked \<open>?\<close> may be undefined.\<close>

record userData =
  ud_email :: string
  ud_password :: string
  ud_username :: string
  ud_fullName :: "string option"
  ud_organizationName :: "string option"
  ud_organizationSubdomain :: "string option"

text \<open>Truthiness of a value that is a string or undefined.\<close>

fun present :: "string option \<Rightarrow> bool" where
  "present None = False"
| "present (Some v) = (v \<noteq> [])"

text \<open>\<open>select({ id }).from(users).where(users.email = email).limit(1)\<close>\<close>

definition select_existing :: "db \<Rightarrow> string \<Rightarrow> jsval list" where
  "select_existing s email_arg =
     take 1 [JObj [(''id'', JNum (u_id u))]. u \<leftarrow> users s, u_email u = email_arg]"

text \<open>
  \<open>insert(organizations).values({ name, subdomain }).returning({ id })\<close>. The result is
  the identifier returned and the database afterwards.

  Modelled from the spec: the table declarations are not part of the sources read here.
  In all three inserts the table's sequence issues the identifier, a nullable column the
  insert leaves out is null, the timestamps are the clock's, and the active flag and the
  settings take the defaults the surroundings give.
\<close>

definition insert_organization :: "env \<Rightarrow> db \<Rightarrow> string \<Rightarrow> string \<Rightarrow> nat \<times> db" where
  "insert_organization e s name_arg subdomain_arg =
     (let new_id = Suc (organizations_id_seq s);
          row = \<lparr>o_id = new_id, o_name = name_arg, o_subdomain = subdomain_arg,
                 o_settings = default_settings e, o_isActive = default_isActive e,
                 o_createdAt = now e, o_updatedAt = now e\<rparr>
      in (new_id,
          s\<lparr>organizations := organizations s @ [row],
            organizations_id_seq := new_id,
            journal := journal s @ [InsertOrganization new_id]\<rparr>))"

text \<open>\<open>insert(userRoles).values({ name, description, permissions, organizationId })\<close>\<close>

definition insert_userRole ::
  "db \<Rightarrow> string \<Rightarrow> string \<Rightarrow> string list \<Rightarrow> nat \<Rightarrow> db" where
  "insert_userRole s name_arg description_arg permissions_arg organizationId =
     (let new_id = Suc (user_roles_id_seq s);
          row = \<lparr>r_id = new_id, r_name = name_arg, r_description = Some description_arg,
                 r_permissions = Some permissions_arg, r_organizationId = organizationId\<rparr>
      in s\<lparr>userRoles := userRoles s @ [row],
           user_roles_id_seq := new_id,
           journal := journal s @ [InsertUserRole new_id]\<rparr>)"

text \<open>
  \<open>select({ id }).from(userRoles)
  .where(userRoles.organizationId = organizationId and userRoles.name = 'admin').limit(1)\<close>
\<close>

definition select_admin_role :: "db \<Rightarrow> nat \<Rightarrow> nat list" where
  "select_admin_role s organizationId =
     take 1 [r_id r. r \<leftarrow> userRoles s,
               r_organizationId r = organizationId \<and> r_name r = ''admin'']"

text \<open>
  \<open>insert(users).values({ email, password, username, fullName, organizationId, roleId })
  .returning()\<close>: the result is the identifier of the returned row and the database
  afterwards.
\<close>

definition insert_user ::
  "env \<Rightarrow> db \<Rightarrow> string \<Rightarrow> string \<Rightarrow> string \<Rightarrow> string option \<Rightarrow> nat \<Rightarrow> nat \<Rightarrow> nat \<times> db" where
  "insert_user e s email_arg password_arg username_arg fullName_arg organizationId roleId =
     (let new_id = Suc (users_id_seq s);
          row = \<lparr>u_id = new_id, u_username = username_arg, u_email = email_arg,
                 u_password = password_arg, u_fullName = fullName_arg, u_phone = None,
                 u_avatar = None, u_organizationId = organizationId, u_roleId = roleId,
                 u_isActive = default_isActive e, u_lastLogin = None,
                 u_createdAt = now e, u_updatedAt = now e\<rparr>
      in (new_id,
          s\<lparr>users := users s @ [row],
            users_id_seq := new_id,
            journal := journal s @ [InsertUser new_id]\<rparr>))"

text \<open>
  \<open>select(..).from(users).innerJoin(organizations, users.organizationId = organizations.id)
  .where(users.id = uid).limit(1)\<close>, the query of \<open>registerUser\<close> and \<open>loadUserContext\<close>.
\<close>

definition select_identity :: "db \<Rightarrow> jsval \<Rightarrow> jsval list" where
  "select_identity s uid = take 1
     [identity_fields u org. u \<leftarrow> users s, org \<leftarrow> organizations s,
        u_organizationId u = o_id org, JNum (u_id u) = uid]"

text \<open>\<open>const [x] = rows\<close>\<close>

fun first_row :: "jsval list \<Rightarrow> jsval" where
  "first_row [] = JUndefined"
| "first_row (x # _) = x"

text \<open>The body of the \<open>try\<close> block of \<open>registerUser\<close>.\<close>

definition registerUser_try :: "env \<Rightarrow> db \<Rightarrow> userData \<Rightarrow> (error + jsval) \<times> db" where
  "registerUser_try e s userData_arg =
     (case hashPassword e (ud_password userData_arg) of
        Inl err \<Rightarrow> (Inl err, s)
      | Inr hashedPassword \<Rightarrow>
          if fails e RegSelectExisting then (Inl StorageError, s)
          else if select_existing s (ud_email userData_arg) \<noteq> []
          then (Inl (Error ''User with this email already exists''), s)
          else
            (case (ud_organizationName userData_arg, ud_organizationSubdomain userData_arg) of
               (Some organizationName, Some organizationSubdomain) \<Rightarrow>
                 if organizationName = [] \<or> organizationSubdomain = []
                 then (Inl (Error ''Organization information is required''), s)
                 else if fails e RegInsertOrganization then (Inl StorageError, s)
                 else
                   (let (organizationId, s1) =
                          insert_organization e s organizationName organizationSubdomain
                    in if fails e RegInsertRole then (Inl StorageError, s1)
                       else
                         (let s2 = insert_userRole s1 ''admin'' ''Organization Administrator''
                                     [''*''] organizationId
                          in if fails e RegSelectRole then (Inl StorageError, s2)
                             else
                               (case select_admin_role s2 organizationId of
                                  [] \<Rightarrow> (Inl TypeError, s2)
                                | adminRole # _ \<Rightarrow>
                                    if fails e RegInsertUser then (Inl StorageError, s2)
                                    else
                                      (let (newUser, s3) =
                                             insert_user e s2 (ud_email userData_arg)
                                               hashedPassword (ud_username userData_arg)
                                               (ud_fullName userData_arg) organizationId adminRole
                                       in if fails e RegSelectJoined then (Inl StorageError, s3)
                                          else (Inr (first_row (select_identity s3 (JNum newUser))),
                                                s3)))))
             | _ \<Rightarrow> (Inl (Error ''Organization information is required''), s)))"

text \<open>\<open>registerUser\<close>: the \<open>catch\<close> logs the error and returns \<open>null\<close>.\<close>

definition registerUser :: "env \<Rightarrow> db \<Rightarrow> userData \<Rightarrow> jsval \<times> db \<times> console" where
  "registerUser e s userData_arg =
     (case registerUser_try e s userData_arg of
        (Inr v, s') \<Rightarrow> (v, s', [])
      | (Inl err, s') \<Rightarrow> (JNull, s', [(''Registration error:'', err)]))"

section \<open>Middleware\<close>

text \<open>
  The session of a request (its \<open>userId\<close> is \<open>undefined\<close> until a login sets it) and the
  part of the request the middleware reads and writes; \<open>req.user\<close> is \<open>undefined\<close> until
  the loader attaches an identity.
\<close>

record session =
  userId :: jsval

record request =
  req_session :: "session option"
  req_user :: jsval

text \<open>
  What a middleware or a handler does with the request: it calls \<open>next()\<close>, or it
  answers with a status and a JSON body.
\<close>

datatype response = Next | Json nat jsval

definition message :: "string \<Rightarrow> jsval" where
  "message m = JObj [(''message'', JStr m)]"

text \<open>\<open>req.session?.userId\<close>\<close>

definition session_userId :: "request \<Rightarrow> jsval" where
  "session_userId req = (case req_session req of None \<Rightarrow> JUndefined | Some ss \<Rightarrow> userId ss)"

definition requireAuth :: "request \<Rightarrow> response" where
  "requireAuth req =
     (if \<not> truthy (session_userId req) then Json 401 (message ''Authentication required'')
      else Next)"

text \<open>
  \<open>select({ name, permissions }).from(userRoles).where(userRoles.id = roleId).limit(1)\<close>
\<close>

definition select_role :: "db \<Rightarrow> jsval \<Rightarrow> (string \<times> string list option) list" where
  "select_role s roleId =
     take 1 [(r_name r, r_permissions r). r \<leftarrow> userRoles s, JNum (r_id r) = roleId]"

text \<open>\<open>permissions && permissions.includes(p)\<close>\<close>

fun has_permission :: "string list option \<Rightarrow> string \<Rightarrow> bool" where
  "has_permission None p = False"
| "has_permission (Some ps) p = (p \<in> set ps)"

definition requireRole :: "string list \<Rightarrow> env \<Rightarrow> db \<Rightarrow> request \<Rightarrow> response \<times> console" where
  "requireRole requiredRoles e s req =
     (if \<not> truthy (req_user req) then (Json 401 (message ''Authentication required''), [])
      else if fails e RoleSelect
      then (Json 500 (message ''Authorization error''), [(''Role check error:'', StorageError)])
      else
        (case select_role s (get (req_user req) ''roleId'') of
           [] \<Rightarrow> (Json 403 (message ''No role found''), [])
         | (name, permissions) # _ \<Rightarrow>
             if has_permission permissions ''*'' then (Next, [])
             else
               (let hasRequiredRole =
                      list_ex (\<lambda>role. name = role \<or> has_permission permissions role) requiredRoles
                in if \<not> hasRequiredRole then (Json 403 (message ''Insufficient permissions''), [])
                   else (Next, []))))"

text \<open>\<open>delete req.session.userId\<close>\<close>

definition clear_session :: "request \<Rightarrow> request" where
  "clear_session req =
     req\<lparr>req_session := map_option (\<lambda>ss. ss\<lparr>userId := JUndefined\<rparr>) (req_session req)\<rparr>"

text \<open>
  \<open>loadUserContext\<close> always ends in \<open>next()\<close>; the result is the request it passes on and
  the console lines.
\<close>

definition loadUserContext :: "env \<Rightarrow> db \<Rightarrow> request \<Rightarrow> request \<times> console" where
  "loadUserContext e s req =
     (if truthy (session_userId req) then
        (if fails e ContextSelect
         then (clear_session req, [(''User context loading error:'', StorageError)])
         else
           (let userWithOrg = first_row (select_identity s (session_userId req))
            in if truthy userWithOrg \<and> truthy (get userWithOrg ''isActive'') then
                 (case get userWithOrg ''organization'' of
                    JUndefined \<Rightarrow>
                      (clear_session req, [(''User context loading error:'', TypeError)])
                  | JNull \<Rightarrow>
                      (clear_session req, [(''User context loading error:'', TypeError)])
                  | org \<Rightarrow>
                      if truthy (get org ''isActive'') then (req\<lparr>req_user := userWithOrg\<rparr>, [])
                      else (clear_session req, []))
               else (clear_session req, [])))
      else (req, []))"

section \<open>The authentication routes\<close>

text \<open>
  The JSON bodies of the two posts; a field the client left out is undefined.
\<close>

record register_body =
  rb_email :: "string option"
  rb_password :: "string option"
  rb_username :: "string option"
  rb_fullName :: "string option"
  rb_organizationName :: "string option"
  rb_organizationSubdomain :: "string option"

record login_body =
  lb_email :: "string option"
  lb_password :: "string option"

text \<open>
  \<open>{ id: user.id, email: user.email, username: user.username, fullName: user.fullName,
  organization: user.organization }\<close>, the object the three routes answer with.
\<close>

definition user_summary :: "jsval \<Rightarrow> jsval" where
  "user_summary u = JObj
     [(''id'', get u ''id''),
      (''email'', get u ''email''),
      (''username'', get u ''username''),
      (''fullName'', get u ''fullName''),
      (''organization'', get u ''organization'')]"

text \<open>
  \<open>req.session!.userId = user.id; res.json({ user: ... })\<close>, the common end of the
  register and login handlers: without a session object the assignment throws, and the
  handler's \<open>catch\<close> answers 500 with \<open>failed\<close>.
\<close>

definition establish_session ::
  "string \<Rightarrow> string \<Rightarrow> request \<Rightarrow> jsval \<Rightarrow> response \<times> request \<times> console" where
  "establish_session label failed req u =
     (case req_session req of
        None \<Rightarrow> (Json 500 (message failed), req, [(label, TypeError)])
      | Some ss \<Rightarrow>
          (Json 200 (JObj [(''user'', user_summary u)]),
           req\<lparr>req_session := Some (ss\<lparr>userId := get u ''id''\<rparr>)\<rparr>, []))"

text \<open>\<open>POST /api/auth/register\<close>\<close>

definition register_route ::
  "env \<Rightarrow> db \<Rightarrow> request \<Rightarrow> register_body \<Rightarrow> response \<times> request \<times> db \<times> console" where
  "register_route e s req body =
     (if \<not> present (rb_email body) \<or> \<not> present (rb_password body)
         \<or> \<not> present (rb_username body)
      then (Json 400 (message ''Email, password, and username are required''), req, s, [])
      else if \<not> present (rb_organizationName body) \<or> \<not> present (rb_organizationSubdomain body)
      then (Json 400 (message ''Organization name and subdomain are required''), req, s, [])
      else
        (case (rb_email body, rb_password body, rb_username body) of
           (Some em, Some pw, Some un) \<Rightarrow>
             (let (u, s', out) =
                    registerUser e s
                      \<lparr>ud_email = em, ud_password = pw, ud_username = un,
                       ud_fullName = rb_fullName body,
                       ud_organizationName = rb_organizationName body,
                       ud_organizationSubdomain = rb_organizationSubdomain body\<rparr>
              in if \<not> truthy u then (Json 400 (message ''Registration failed''), req, s', out)
                 else
                   (let (res, req', out') = establish_session ''Registration error:''
                                              ''Registration failed'' req u
                    in (res, req', s', out @ out')))
         | _ \<Rightarrow> (Json 400 (message ''Email, password, and username are required''), req, s, [])))"

text \<open>\<open>POST /api/auth/login\<close>\<close>

definition login_route ::
  "env \<Rightarrow> db \<Rightarrow> request \<Rightarrow> login_body \<Rightarrow> response \<times> request \<times> db \<times> console" where
  "login_route e s req body =
     (if \<not> present (lb_email body) \<or> \<not> present (lb_password body)
      then (Json 400 (message ''Email and password are required''), req, s, [])
      else
        (case (lb_email body, lb_password body) of
           (Some em, Some pw) \<Rightarrow>
             (let (u, s', out) = authenticateUser e s em pw
              in if \<not> truthy u then (Json 401 (message ''Invalid credentials''), req, s', out)
                 else
                   (let (res, req', out') = establish_session ''Login error:''
                                              ''Login failed'' req u
                    in (res, req', s', out @ out')))
         | _ \<Rightarrow> (Json 400 (message ''Email and password are required''), req, s, [])))"

text \<open>
  \<open>GET /api/auth/me\<close>: the loader that runs before every route, then \<open>requireAuth\<close>, then
  the handler.
\<close>

definition me_route :: "env \<Rightarrow> db \<Rightarrow> request \<Rightarrow> response \<times> request \<times> console" where
  "me_route e s req0 =
     (let (req, out) = loadUserContext e s req0
      in case requireAuth req of
           Json st b \<Rightarrow> (Json st b, req, out)
         | Next \<Rightarrow>
             if truthy (req_user req)
             then (Json 200 (JObj [(''user'', user_summary (req_user req))]), req, out)
             else (Json 401 (message ''Not authenticated''), req, out))"

text \<open>
  \<open>POST /api/auth/logout\<close>: \<open>req.session?.destroy(callback)\<close>. Without a session object
  nothing is called and no answer is sent; otherwise the session store calls back with
  its error, if any.
\<close>

definition logout_route :: "error option \<Rightarrow> request \<Rightarrow> response option \<times> console" where
  "logout_route err req =
     (case req_session req of
        None \<Rightarrow> (None, [])
      | Some ss \<Rightarrow>
          (case err of
             Some er \<Rightarrow> (Some (Json 500 (message ''Logout failed'')), [(''Logout error:'', er)])
           | None \<Rightarrow> (Some (Json 200 (message ''Logged out successfully'')), [])))"

section \<open>Well-formed databases and predicates of the properties\<close>

text \<open>
  Modelled from the spec: the table declarations of the schema module are not part of
  the sources read here. The data model gives a user a unique email and every role
  exactly one organization; identifiers are primary keys issued by the table's sequence,
  which is therefore never behind a stored identifier.
\<close>

definition wf_db :: "db \<Rightarrow> bool" where
  "wf_db s \<longleftrightarrow>
     distinct (map u_email (users s)) \<and>
     distinct (map u_id (users s)) \<and>
     distinct (map o_id (organizations s)) \<and>
     distinct (map r_id (userRoles s)) \<and>
     list_all (\<lambda>u. u_id u \<le> users_id_seq s) (users s) \<and>
     list_all (\<lambda>org. o_id org \<le> organizations_id_seq s) (organizations s) \<and>
     list_all (\<lambda>r. r_id r \<le> user_roles_id_seq s) (userRoles s) \<and>
     list_all (\<lambda>r. r_organizationId r \<in> set (map o_id (organizations s))) (userRoles s)"

text \<open>
  An object carries no password: neither it nor its nested organization has a property
  of that name.
\<close>

definition no_password :: "jsval \<Rightarrow> bool" where
  "no_password v \<longleftrightarrow>
     ''password'' \<notin> set (keys v) \<and> ''password'' \<notin> set (keys (get v ''organization''))"

text \<open>The body of an answer, \<open>undefined\<close> when the request was passed on.\<close>

fun body_of :: "response \<Rightarrow> jsval" where
  "body_of Next = JUndefined"
| "body_of (Json st b) = b"

fun status_of :: "response \<Rightarrow> nat option" where
  "status_of Next = None"
| "status_of (Json st b) = Some st"

text \<open>
  An answer carries no password: its body has no such property, and the \<open>user\<close> object
  of the body carries none.
\<close>

definition response_no_password :: "response \<Rightarrow> bool" where
  "response_no_password r \<longleftrightarrow>
     ''password'' \<notin> set (keys (body_of r)) \<and> no_password (get (body_of r) ''user'')"

text \<open>
  What an answer may show of a stored user and its organization, written out column by
  column: identifier, email, username, display name, and the organization's columns.
\<close>

definition user_view :: "user \<Rightarrow> organization \<Rightarrow> jsval" where
  "user_view u org = JObj
     [(''id'', JNum (u_id u)),
      (''email'', JStr (u_email u)),
      (''username'', JStr (u_username u)),
      (''fullName'', (case u_fullName u of None \<Rightarrow> JNull | Some n \<Rightarrow> JStr n)),
      (''organization'', JObj
         [(''id'', JNum (o_id org)),
          (''name'', JStr (o_name org)),
          (''subdomain'', JStr (o_subdomain org)),
          (''settings'', o_settings org),
          (''isActive'', JBool (o_isActive org)),
          (''createdAt'', JNum (o_createdAt org)),
          (''updatedAt'', JNum (o_updatedAt org))])]"

text \<open>An answer in the 4xx class, and one in the 5xx class.\<close>

definition client_error :: "response \<Rightarrow> bool" where
  "client_error r = (case status_of r of None \<Rightarrow> False | Some st \<Rightarrow> 400 \<le> st \<and> st < 500)"

definition server_error :: "response \<Rightarrow> bool" where
  "server_error r = (case status_of r of None \<Rightarrow> False | Some st \<Rightarrow> 500 \<le> st \<and> st < 600)"

section \<open>Example data\<close>

text \<open>
  The scenario of the specification: organization Acme, its admin role and the user
  \<open>a@x.com\<close>. In the examples a stand-in plays bcryptjs: the hash of \<open>p\<close> is \<open>HASH(p)\<close>.
\<close>

definition env_ok :: env where
  "env_ok = \<lparr>fails = (\<lambda>c. False),
            bcrypt_hash = (\<lambda>p rounds. Inr (''HASH('' @ p @ '')'')),
            bcrypt_compare = (\<lambda>p h. Inr (h = ''HASH('' @ p @ '')'')),
            now = 100, default_isActive = True, default_settings = JNull\<rparr>"

text \<open>The same surroundings, with the last-login update rejected by the database.\<close>

definition env_update_rejected :: env where
  "env_update_rejected = env_ok\<lparr>fails := (\<lambda>c. c = AuthUpdate)\<rparr>"

text \<open>The same surroundings, with the email lookup rejected by the database.\<close>

definition env_select_rejected :: env where
  "env_select_rejected = env_ok\<lparr>fails := (\<lambda>c. c = AuthSelect)\<rparr>"

definition acme :: organization where
  "acme = \<lparr>o_id = 1, o_name = ''Acme'', o_subdomain = ''acme'', o_settings = JNull,
          o_isActive = True, o_createdAt = 100, o_updatedAt = 100\<rparr>"

definition acme_admin :: userRole where
  "acme_admin = \<lparr>r_id = 1, r_name = ''admin'', r_description = Some ''Organization Administrator'',
                r_permissions = Some [''*''], r_organizationId = 1\<rparr>"

definition alice :: user where
  "alice = \<lparr>u_id = 1, u_username = ''a'', u_email = ''a@x.com'', u_password = ''HASH(pw123456)'',
           u_fullName = None, u_phone = None, u_avatar = None, u_organizationId = 1,
           u_roleId = 1, u_isActive = True, u_lastLogin = None, u_createdAt = 100,
           u_updatedAt = 100\<rparr>"

definition db0 :: db where
  "db0 = \<lparr>users = [], organizations = [], userRoles = [], users_id_seq = 0,
         organizations_id_seq = 0, user_roles_id_seq = 0, journal = []\<rparr>"

definition db1 :: db where
  "db1 = \<lparr>users = [alice], organizations = [acme], userRoles = [acme_admin], users_id_seq = 1,
         organizations_id_seq = 1, user_roles_id_seq = 1,
         journal = [InsertOrganization 1, InsertUserRole 1, InsertUser 1]\<rparr>"

definition alice_data :: userData where
  "alice_data = \<lparr>ud_email = ''a@x.com'', ud_password = ''pw123456'', ud_username = ''a'',
                ud_fullName = None, ud_organizationName = Some ''Acme'',
                ud_organizationSubdomain = Some ''acme''\<rparr>"

text \<open>The body of the post that registers her.\<close>

definition alice_body :: register_body where
  "alice_body = \<lparr>rb_email = Some ''a@x.com'', rb_password = Some ''pw123456'',
                rb_username = Some ''a'', rb_fullName = None,
                rb_organizationName = Some ''Acme'',
                rb_organizationSubdomain = Some ''acme''\<rparr>"

text \<open>Surroundings in which the database rejects the insert of the role.\<close>

definition env_insert_rejected :: env where
  "env_insert_rejected = env_ok\<lparr>fails := (\<lambda>c. c = RegInsertRole)\<rparr>"

text \<open>Roles without the wildcard, and one with it under another name.\<close>

definition plain_admin :: userRole where
  "plain_admin = \<lparr>r_id = 1, r_name = ''admin'', r_description = None,
                 r_permissions = Some [''read''], r_organizationId = 1\<rparr>"

definition wildcard_guest :: userRole where
  "wildcard_guest = \<lparr>r_id = 2, r_name = ''guest'', r_description = None,
                    r_permissions = Some [''*''], r_organizationId = 1\<rparr>"

definition viewer :: userRole where
  "viewer = \<lparr>r_id = 3, r_name = ''viewer'', r_description = None,
            r_permissions = Some [''read''], r_organizationId = 1\<rparr>"

definition db_roles :: db where
  "db_roles = db1\<lparr>userRoles := [plain_admin, wildcard_guest, viewer], user_roles_id_seq := 3\<rparr>"

text \<open>A request of Alice's session, with her identity attached under the role \<open>k\<close>.\<close>

definition request_with_role :: "nat \<Rightarrow> request" where
  "request_with_role k =
     \<lparr>req_session = Some \<lparr>userId = JNum 1\<rparr>,
      req_user = identity_fields (alice\<lparr>u_roleId := k\<rparr>) acme\<rparr>"

text \<open>A request of Alice's session as it reaches the loader.\<close>

definition fresh_request :: request where
  "fresh_request = \<lparr>req_session = Some \<lparr>userId = JNum 1\<rparr>, req_user = JUndefined\<rparr>"

definition db_inactive :: db where
  "db_inactive = db1\<lparr>users := [alice\<lparr>u_isActive := False\<rparr>]\<rparr>"

section \<open>Properties of the identity resolver\<close>

lemma take1_Cons_mem: "take 1 xs = r # rs \<Longrightarrow> r \<in> set xs"
  by (cases xs) auto

lemma take1_Cons_rest: "take 1 xs = r # rs \<Longrightarrow> rs = []"
  by (cases xs) auto

lemma take1_Nil: "take 1 xs = [] \<longleftrightarrow> xs = []"
  by (cases xs) auto

lemma omit_password_auth_fields: "omit ''password'' (auth_fields u org) = identity_fields u org"
  by (simp add: auth_fields_def identity_fields_def)

lemma get_auth_fields_password: "get (auth_fields u org) ''password'' = JStr (u_password u)"
  by (simp add: auth_fields_def)

lemma select_auth_Nil:
  "select_auth s em = [] \<longleftrightarrow>
     \<not> (\<exists>u\<in>set (users s). \<exists>org\<in>set (organizations s).
          u_organizationId u = o_id org \<and> u_email u = em \<and> u_isActive u \<and> o_isActive org)"
  unfolding select_auth_def take1_Nil by auto

lemma select_auth_Cons:
  assumes "select_auth s em = r # rs"
  shows "\<exists>u\<in>set (users s). \<exists>org\<in>set (organizations s).
           u_organizationId u = o_id org \<and> u_email u = em \<and> u_isActive u \<and> o_isActive org \<and>
           r = auth_fields u org"
  using take1_Cons_mem [OF assms [unfolded select_auth_def]] by auto

lemma distinct_key_eq:
  "distinct (map k xs) \<Longrightarrow> x \<in> set xs \<Longrightarrow> y \<in> set xs \<Longrightarrow> k x = k y \<Longrightarrow> x = y"
  by (meson distinct_map inj_onD)

lemma authenticateUser_no_rejection:
  assumes uniq: "distinct (map u_email (users s))" and sel: "\<not> fails e AuthSelect" and upd: "\<not> fails e AuthUpdate"
  shows "if \<exists>u\<in>set (users s). \<exists>org\<in>set (organizations s).
              u_email u = em \<and> u_isActive u \<and> u_organizationId u = o_id org \<and> o_isActive org \<and>
              comparePassword e pw (u_password u) = Inr True
         then \<exists>u\<in>set (users s). \<exists>org\<in>set (organizations s).
              u_email u = em \<and> u_isActive u \<and> u_organizationId u = o_id org \<and> o_isActive org \<and>
              comparePassword e pw (u_password u) = Inr True \<and>
              fst (authenticateUser e s em pw) = identity_fields u org \<and>
              no_password (fst (authenticateUser e s em pw))
         else fst (authenticateUser e s em pw) = JNull"
proof (cases "select_auth s em")
  case Nil
  have none: "\<not> (\<exists>u\<in>set (users s). \<exists>org\<in>set (organizations s).
          u_email u = em \<and> u_isActive u \<and> u_organizationId u = o_id org \<and> o_isActive org \<and>
          comparePassword e pw (u_password u) = Inr True)"
    using select_auth_Nil [of s em] Nil by blast
  have "fst (authenticateUser e s em pw) = JNull"
    using Nil sel by (simp add: authenticateUser_def authenticateUser_try_def)
  then show ?thesis unfolding if_not_P [OF none] .
next
  case (Cons r rs)
  then obtain u org where u: "u \<in> set (users s)" and org: "org \<in> set (organizations s)"
    and c: "u_organizationId u = o_id org" "u_email u = em" "u_isActive u" "o_isActive org"
    and r: "r = auth_fields u org"
    using select_auth_Cons by blast
  show ?thesis
  proof (cases "comparePassword e pw (u_password u) = Inr True")
    case True
    have res: "fst (authenticateUser e s em pw) = identity_fields u org"
      using Cons r sel upd True
      by (simp add: authenticateUser_def authenticateUser_try_def get_auth_fields_password
          omit_password_auth_fields)
    have np: "no_password (identity_fields u org)"
      by (simp add: no_password_def identity_fields_def organization_fields_def)
    show ?thesis using u org c True res np by auto
  next
    case False
    have none: "\<not> (\<exists>u'\<in>set (users s). \<exists>org'\<in>set (organizations s).
              u_email u' = em \<and> u_isActive u' \<and> u_organizationId u' = o_id org' \<and> o_isActive org' \<and>
              comparePassword e pw (u_password u') = Inr True)"
    proof
      assume "\<exists>u'\<in>set (users s). \<exists>org'\<in>set (organizations s).
              u_email u' = em \<and> u_isActive u' \<and> u_organizationId u' = o_id org' \<and> o_isActive org' \<and>
              comparePassword e pw (u_password u') = Inr True"
      then obtain u' where u': "u' \<in> set (users s)" "u_email u' = em"
        "comparePassword e pw (u_password u') = Inr True" by blast
      have "u' = u" using distinct_key_eq [OF uniq u'(1) u] u'(2) c(2) by simp
      with u'(3) False show False by simp
    qed
    have "fst (authenticateUser e s em pw) = JNull"
      using Cons r sel False
      by (cases "comparePassword e pw (u_password u)")
         (auto simp add: authenticateUser_def authenticateUser_try_def get_auth_fields_password)
    then show ?thesis unfolding if_not_P [OF none] .
  qed
qed


lemma authenticateUser_rejected:
  assumes "fails e AuthSelect \<or> fails e AuthUpdate"
  shows "fst (authenticateUser e s em pw) = JNull"
proof (cases "fails e AuthSelect")
  case True
  then show ?thesis by (simp add: authenticateUser_def authenticateUser_try_def)
next
  case False
  with assms have upd: "fails e AuthUpdate" by simp
  show ?thesis
  proof (cases "select_auth s em")
    case Nil
    with False show ?thesis by (simp add: authenticateUser_def authenticateUser_try_def)
  next
    case (Cons r rs)
    from select_auth_Cons [OF Cons] obtain u org where r: "r = auth_fields u org" by blast
    show ?thesis
      using False upd Cons unfolding r authenticateUser_def authenticateUser_try_def
      by (cases "comparePassword e pw (u_password u)")
         (simp_all add: get_auth_fields_password)
  qed
qed

text \<open>
  Claim C1, as the code has it. With unique stored emails, \<open>authenticateUser\<close> returns an
  identity exactly when neither the lookup nor the last-login update is rejected by the
  database and a stored user has the given email, is active, belongs to an active
  organization and has a hash that \<open>comparePassword\<close> verifies against the given
  password; the identity is that user joined with that organization, without the
  password property. In every other case, a rejected statement included, the result is
  \<open>null\<close>.
\<close>

theorem authenticateUser_iff:
  assumes uniq: "distinct (map u_email (users s))"
  shows "if \<not> fails e AuthSelect \<and> \<not> fails e AuthUpdate \<and>
            (\<exists>u\<in>set (users s). \<exists>org\<in>set (organizations s).
              u_email u = em \<and> u_isActive u \<and> u_organizationId u = o_id org \<and> o_isActive org \<and>
              comparePassword e pw (u_password u) = Inr True)
         then \<exists>u\<in>set (users s). \<exists>org\<in>set (organizations s).
              u_email u = em \<and> u_isActive u \<and> u_organizationId u = o_id org \<and> o_isActive org \<and>
              comparePassword e pw (u_password u) = Inr True \<and>
              fst (authenticateUser e s em pw) = identity_fields u org \<and>
              no_password (fst (authenticateUser e s em pw))
         else fst (authenticateUser e s em pw) = JNull"
proof (cases "fails e AuthSelect \<or> fails e AuthUpdate")
  case True
  then have no: "\<not> (\<not> fails e AuthSelect \<and> \<not> fails e AuthUpdate \<and>
            (\<exists>u\<in>set (users s). \<exists>org\<in>set (organizations s).
              u_email u = em \<and> u_isActive u \<and> u_organizationId u = o_id org \<and> o_isActive org \<and>
              comparePassword e pw (u_password u) = Inr True))"
    by blast
  show ?thesis unfolding if_not_P [OF no] using authenticateUser_rejected [OF True] .
next
  case False
  then have sel: "\<not> fails e AuthSelect" and upd: "\<not> fails e AuthUpdate" by simp_all
  from authenticateUser_no_rejection [OF uniq sel upd, of em pw] sel upd
  show ?thesis by (simp split: if_splits)
qed

theorem authenticateUser_iff_witness:
  "distinct (map u_email (users db1)) \<and>
   fst (authenticateUser env_ok db1 ''a@x.com'' ''pw123456'') = identity_fields alice acme \<and>
   fst (authenticateUser env_ok db1 ''a@x.com'' ''wrong'') = JNull \<and>
   fst (authenticateUser env_update_rejected db1 ''a@x.com'' ''pw123456'') = JNull"
proof -
  have h1: "distinct (map u_email (users db1))" by (simp add: db1_def)
  have good: "fst (authenticateUser env_ok db1 ''a@x.com'' ''pw123456'') = identity_fields alice acme"
    using authenticateUser_iff [OF h1, of env_ok "''a@x.com''" "''pw123456''"]
    by (simp add: db1_def alice_def acme_def env_ok_def comparePassword_def)
  have bad: "fst (authenticateUser env_ok db1 ''a@x.com'' ''wrong'') = JNull"
    using authenticateUser_iff [OF h1, of env_ok "''a@x.com''" "''wrong''"]
    by (simp add: db1_def alice_def acme_def env_ok_def comparePassword_def)
  have rej: "fst (authenticateUser env_update_rejected db1 ''a@x.com'' ''pw123456'') = JNull"
    using authenticateUser_iff [OF h1, of env_update_rejected "''a@x.com''" "''pw123456''"]
    by (simp add: env_update_rejected_def)
  from h1 good bad rej show ?thesis by simp
qed

text \<open>
  Claim C1 as stated fails: Alice is stored with the given email, she and Acme are
  active and her hash verifies, the database rejects the lookup, and the call returns
  \<open>null\<close>.
\<close>

theorem authenticateUser_lookup_rejected:
  "alice \<in> set (users db1) \<and> acme \<in> set (organizations db1) \<and>
   u_email alice = ''a@x.com'' \<and> u_isActive alice \<and>
   u_organizationId alice = o_id acme \<and> o_isActive acme \<and>
   comparePassword env_select_rejected ''pw123456'' (u_password alice) = Inr True \<and>
   fst (authenticateUser env_select_rejected db1 ''a@x.com'' ''pw123456'') = JNull"
  by (simp add: authenticateUser_def authenticateUser_try_def db1_def alice_def acme_def
      comparePassword_def env_select_rejected_def env_ok_def)

text \<open>
  Claim C3, as the code has it. The last-login update is one more statement of the \<open>try\<close>
  block: when the email lookup finds a row and the password verifies, a rejected update
  is caught like every other error, and \<open>authenticateUser\<close> returns \<open>null\<close>, logs the storage
  error and leaves the database as it was. It does not throw.
\<close>

theorem authenticateUser_update_failure:
  assumes "\<not> fails e AuthSelect"
    and "select_auth s em = auth_fields u org # rest"
    and "comparePassword e pw (u_password u) = Inr True"
    and "fails e AuthUpdate"
  shows "authenticateUser e s em pw = (JNull, s, [(''Authentication error:'', StorageError)])"
  using assms
  by (simp add: authenticateUser_def authenticateUser_try_def get_auth_fields_password)

theorem authenticateUser_update_failure_witness:
  "\<not> fails env_update_rejected AuthSelect \<and>
   select_auth db1 ''a@x.com'' = auth_fields alice acme # [] \<and>
   comparePassword env_update_rejected ''pw123456'' (u_password alice)
     = Inr True \<and>
   fails env_update_rejected AuthUpdate \<and>
   authenticateUser env_update_rejected db1 ''a@x.com'' ''pw123456''
     = (JNull, db1, [(''Authentication error:'', StorageError)])"
proof -
  let ?e = env_update_rejected
  have h1: "\<not> fails ?e AuthSelect" by (simp add: env_update_rejected_def)
  have h2: "select_auth db1 ''a@x.com'' = auth_fields alice acme # []"
    by (simp add: select_auth_def db1_def alice_def acme_def)
  have h3: "comparePassword ?e ''pw123456'' (u_password alice) = Inr True"
    by (simp add: comparePassword_def env_update_rejected_def env_ok_def alice_def)
  have h4: "fails ?e AuthUpdate" by (simp add: env_update_rejected_def)
  from h1 h2 h3 h4 authenticateUser_update_failure [OF h1 h2 h3 h4] show ?thesis by simp
qed

text \<open>
  Claim C3 as stated fails: Alice's lookup succeeds and her password verifies, the
  last-login write is rejected, and the call returns \<open>null\<close> instead of her identity.
\<close>

theorem authenticateUser_not_best_effort:
  "select_auth db1 ''a@x.com'' \<noteq> [] \<and>
   comparePassword env_update_rejected ''pw123456'' (u_password alice)
     = Inr True \<and>
   fst (authenticateUser env_update_rejected db1 ''a@x.com'' ''pw123456'')
     = JNull \<and>
   fst (authenticateUser env_ok db1 ''a@x.com'' ''pw123456'') = identity_fields alice acme"
  by (simp add: authenticateUser_def authenticateUser_try_def select_auth_def db1_def alice_def
      acme_def comparePassword_def env_update_rejected_def env_ok_def auth_fields_def
      identity_fields_def)

lemma select_existing_nonempty:
  "select_existing s em \<noteq> [] \<longleftrightarrow> em \<in> u_email ` set (users s)"
  unfolding select_existing_def take1_Nil by auto

text \<open>
  Claim C5. When a stored user already has the email, \<open>registerUser\<close> fails: it returns
  \<open>null\<close> and the database is exactly as before, so no organization, role or user row is
  added. When hashing succeeded and the lookup ran, the error raised and logged is the
  duplicate-email error.
\<close>

theorem registerUser_duplicate_email:
  assumes "ud_email d \<in> u_email ` set (users s)"
  shows "fst (registerUser e s d) = JNull \<and>
         fst (snd (registerUser e s d)) = s \<and>
         (\<forall>h. hashPassword e (ud_password d) = Inr h \<and> \<not> fails e RegSelectExisting \<longrightarrow>
              fst (registerUser_try e s d) = Inl (Error ''User with this email already exists'') \<and>
              snd (snd (registerUser e s d)) =
                [(''Registration error:'', Error ''User with this email already exists'')])"
proof -
  have ex: "select_existing s (ud_email d) \<noteq> []"
    using assms by (simp only: select_existing_nonempty)
  show ?thesis
  proof (cases "hashPassword e (ud_password d)")
    case (Inl err)
    then show ?thesis by (simp add: registerUser_def registerUser_try_def)
  next
    case (Inr h)
    then show ?thesis using ex by (simp add: registerUser_def registerUser_try_def)
  qed
qed

theorem registerUser_duplicate_email_witness:
  "ud_email alice_data \<in> u_email ` set (users db1) \<and>
   registerUser env_ok db1 alice_data =
     (JNull, db1, [(''Registration error:'', Error ''User with this email already exists'')])"
proof -
  have h: "ud_email alice_data \<in> u_email ` set (users db1)"
    by (simp add: alice_data_def db1_def alice_def)
  have hp: "hashPassword env_ok (ud_password alice_data) = Inr ''HASH(pw123456)''"
    by (simp add: hashPassword_def env_ok_def alice_data_def)
  have nf: "\<not> fails env_ok RegSelectExisting" by (simp add: env_ok_def)
  from registerUser_duplicate_email [OF h, of env_ok] hp nf
  have "fst (registerUser env_ok db1 alice_data) = JNull"
    and "fst (snd (registerUser env_ok db1 alice_data)) = db1"
    and "snd (snd (registerUser env_ok db1 alice_data)) =
           [(''Registration error:'', Error ''User with this email already exists'')]"
    by blast+
  then have "registerUser env_ok db1 alice_data =
     (JNull, db1, [(''Registration error:'', Error ''User with this email already exists'')])"
    by (metis prod.collapse)
  with h show ?thesis by simp
qed

lemma registerUser_try_Inr:
  assumes "registerUser_try e s d = (Inr v, s')"
  shows "\<exists>h name sub rid rest.
           hashPassword e (ud_password d) = Inr h \<and>
           \<not> fails e RegSelectExisting \<and> select_existing s (ud_email d) = [] \<and>
           ud_organizationName d = Some name \<and> ud_organizationSubdomain d = Some sub \<and>
           name \<noteq> [] \<and> sub \<noteq> [] \<and>
           \<not> fails e RegInsertOrganization \<and> \<not> fails e RegInsertRole \<and>
           \<not> fails e RegSelectRole \<and> \<not> fails e RegInsertUser \<and> \<not> fails e RegSelectJoined \<and>
           select_admin_role
             (insert_userRole (snd (insert_organization e s name sub)) ''admin''
                ''Organization Administrator'' [''*''] (fst (insert_organization e s name sub)))
             (fst (insert_organization e s name sub)) = rid # rest \<and>
           s' = snd (insert_user e
                  (insert_userRole (snd (insert_organization e s name sub)) ''admin''
                     ''Organization Administrator'' [''*''] (fst (insert_organization e s name sub)))
                  (ud_email d) h (ud_username d) (ud_fullName d)
                  (fst (insert_organization e s name sub)) rid) \<and>
           v = first_row (select_identity s' (JNum (Suc (users_id_seq s))))"
  using assms unfolding registerUser_try_def
  by (auto simp add: Let_def insert_user_def insert_userRole_def insert_organization_def
      split: sum.splits if_splits option.splits list.splits prod.splits)

lemma registerUser_truthy:
  assumes "truthy (fst (registerUser e s d))"
  shows "registerUser_try e s d = (Inr (fst (registerUser e s d)), fst (snd (registerUser e s d)))"
  using assms unfolding registerUser_def
  by (cases "registerUser_try e s d") (auto split: sum.splits)

lemma select_none:
  "\<forall>x\<in>set xs. \<not> P x \<Longrightarrow> [f x. x \<leftarrow> xs, P x] = []"
  by (induction xs) auto

lemma wf_db_roles_old:
  assumes "wf_db s" and "r \<in> set (userRoles s)"
  shows "r_organizationId r \<noteq> Suc (organizations_id_seq s)"
proof -
  from assms have "r_organizationId r \<in> o_id ` set (organizations s)"
    by (auto simp add: wf_db_def list_all_iff)
  then obtain org where "org \<in> set (organizations s)" and "o_id org = r_organizationId r"
    by auto
  moreover from assms(1) have "\<forall>org\<in>set (organizations s). o_id org \<le> organizations_id_seq s"
    by (simp add: wf_db_def list_all_iff)
  ultimately show ?thesis by fastforce
qed

lemma select_admin_role_new:
  assumes "wf_db s"
  shows "select_admin_role
           (insert_userRole (snd (insert_organization e s name sub)) ''admin'' descr perms
              (Suc (organizations_id_seq s)))
           (Suc (organizations_id_seq s)) = [Suc (user_roles_id_seq s)]"
proof -
  have old: "[r_id r. r \<leftarrow> userRoles s,
          r_organizationId r = Suc (organizations_id_seq s) \<and> r_name r = ''admin''] = []"
    using wf_db_roles_old [OF assms] by (intro select_none) blast
  show ?thesis
    unfolding select_admin_role_def insert_userRole_def insert_organization_def Let_def
    by (simp add: old)
qed

text \<open>
  Claim C8. In a well-formed database, a registration that returns an identity was given
  both organization fields and a new email, and it executed exactly three writes in this
  order: the organization, then the role \<open>admin\<close> with the permission \<open>*\<close> for that
  organization, then the user. The three rows are appended to their tables, the
  identifiers are new, and the user row references the new organization and the new role.
\<close>

theorem registerUser_creation_order:
  assumes wf: "wf_db s" and ok: "truthy (fst (registerUser e s d))"
  shows "\<exists>name sub h.
           ud_organizationName d = Some name \<and> name \<noteq> [] \<and>
           ud_organizationSubdomain d = Some sub \<and> sub \<noteq> [] \<and>
           ud_email d \<notin> u_email ` set (users s) \<and>
           hashPassword e (ud_password d) = Inr h \<and>
           Suc (organizations_id_seq s) \<notin> o_id ` set (organizations s) \<and>
           Suc (user_roles_id_seq s) \<notin> r_id ` set (userRoles s) \<and>
           Suc (users_id_seq s) \<notin> u_id ` set (users s) \<and>
           journal (fst (snd (registerUser e s d))) =
             journal s @ [InsertOrganization (Suc (organizations_id_seq s)),
                          InsertUserRole (Suc (user_roles_id_seq s)),
                          InsertUser (Suc (users_id_seq s))] \<and>
           organizations (fst (snd (registerUser e s d))) =
             organizations s @
               [\<lparr>o_id = Suc (organizations_id_seq s), o_name = name, o_subdomain = sub,
                 o_settings = default_settings e, o_isActive = default_isActive e,
                 o_createdAt = now e, o_updatedAt = now e\<rparr>] \<and>
           userRoles (fst (snd (registerUser e s d))) =
             userRoles s @
               [\<lparr>r_id = Suc (user_roles_id_seq s), r_name = ''admin'',
                 r_description = Some ''Organization Administrator'',
                 r_permissions = Some [''*''],
                 r_organizationId = Suc (organizations_id_seq s)\<rparr>] \<and>
           users (fst (snd (registerUser e s d))) =
             users s @
               [\<lparr>u_id = Suc (users_id_seq s), u_username = ud_username d,
                 u_email = ud_email d, u_password = h, u_fullName = ud_fullName d,
                 u_phone = None, u_avatar = None,
                 u_organizationId = Suc (organizations_id_seq s),
                 u_roleId = Suc (user_roles_id_seq s), u_isActive = default_isActive e,
                 u_lastLogin = None, u_createdAt = now e, u_updatedAt = now e\<rparr>]"
proof -
  let ?s' = "fst (snd (registerUser e s d))"
  from registerUser_try_Inr [OF registerUser_truthy [OF ok]]
  obtain h name sub rid rest where
    h: "hashPassword e (ud_password d) = Inr h" and
    ex: "select_existing s (ud_email d) = []" and
    nm: "ud_organizationName d = Some name" "name \<noteq> []" and
    sb: "ud_organizationSubdomain d = Some sub" "sub \<noteq> []" and
    role: "select_admin_role
             (insert_userRole (snd (insert_organization e s name sub)) ''admin''
                ''Organization Administrator'' [''*''] (fst (insert_organization e s name sub)))
             (fst (insert_organization e s name sub)) = rid # rest" and
    s': "?s' = snd (insert_user e
                  (insert_userRole (snd (insert_organization e s name sub)) ''admin''
                     ''Organization Administrator'' [''*''] (fst (insert_organization e s name sub)))
                  (ud_email d) h (ud_username d) (ud_fullName d)
                  (fst (insert_organization e s name sub)) rid)"
    by blast
  have oid: "fst (insert_organization e s name sub) = Suc (organizations_id_seq s)"
    by (simp add: insert_organization_def Let_def)
  have rid: "rid = Suc (user_roles_id_seq s)"
    using role select_admin_role_new [OF wf, of e name sub "''Organization Administrator''" "[''*'']"]
    unfolding oid by simp
  have new_email: "ud_email d \<notin> u_email ` set (users s)"
    using ex select_existing_nonempty [of s "ud_email d"] by simp
  have fresh_o: "Suc (organizations_id_seq s) \<notin> o_id ` set (organizations s)"
    using wf by (fastforce simp add: wf_db_def list_all_iff)
  have fresh_r: "Suc (user_roles_id_seq s) \<notin> r_id ` set (userRoles s)"
    using wf by (fastforce simp add: wf_db_def list_all_iff)
  have fresh_u: "Suc (users_id_seq s) \<notin> u_id ` set (users s)"
    using wf by (fastforce simp add: wf_db_def list_all_iff)
  have j: "journal ?s' = journal s @ [InsertOrganization (Suc (organizations_id_seq s)),
             InsertUserRole (Suc (user_roles_id_seq s)), InsertUser (Suc (users_id_seq s))]"
    unfolding s' by (simp add: insert_user_def insert_userRole_def insert_organization_def Let_def)
  have o: "organizations ?s' = organizations s @
               [\<lparr>o_id = Suc (organizations_id_seq s), o_name = name, o_subdomain = sub,
                 o_settings = default_settings e, o_isActive = default_isActive e,
                 o_createdAt = now e, o_updatedAt = now e\<rparr>]"
    unfolding s' by (simp add: insert_user_def insert_userRole_def insert_organization_def Let_def)
  have r: "userRoles ?s' = userRoles s @
               [\<lparr>r_id = Suc (user_roles_id_seq s), r_name = ''admin'',
                 r_description = Some ''Organization Administrator'',
                 r_permissions = Some [''*''], r_organizationId = Suc (organizations_id_seq s)\<rparr>]"
    unfolding s' by (simp add: insert_user_def insert_userRole_def insert_organization_def Let_def)
  have u: "users ?s' = users s @
               [\<lparr>u_id = Suc (users_id_seq s), u_username = ud_username d, u_email = ud_email d,
                 u_password = h, u_fullName = ud_fullName d, u_phone = None, u_avatar = None,
                 u_organizationId = Suc (organizations_id_seq s),
                 u_roleId = Suc (user_roles_id_seq s), u_isActive = default_isActive e,
                 u_lastLogin = None, u_createdAt = now e, u_updatedAt = now e\<rparr>]"
    unfolding s' rid by (simp add: insert_user_def insert_userRole_def insert_organization_def Let_def)
  from nm sb new_email h fresh_o fresh_r fresh_u j o r u show ?thesis by blast
qed

theorem registerUser_creation_order_witness:
  "wf_db db0 \<and> truthy (fst (registerUser env_ok db0 alice_data)) \<and>
   journal (fst (snd (registerUser env_ok db0 alice_data))) =
     [InsertOrganization 1, InsertUserRole 1, InsertUser 1] \<and>
   organizations (fst (snd (registerUser env_ok db0 alice_data))) = [acme] \<and>
   userRoles (fst (snd (registerUser env_ok db0 alice_data))) = [acme_admin] \<and>
   users (fst (snd (registerUser env_ok db0 alice_data))) = [alice]"
proof -
  have h1: "wf_db db0" by (simp add: wf_db_def db0_def)
  have h2: "truthy (fst (registerUser env_ok db0 alice_data))"
    by (simp add: registerUser_def registerUser_try_def hashPassword_def env_ok_def db0_def
        alice_data_def select_existing_def insert_organization_def insert_userRole_def
        insert_user_def select_admin_role_def select_identity_def identity_fields_def Let_def)
  from registerUser_creation_order [OF h1 h2]
  have "journal (fst (snd (registerUser env_ok db0 alice_data))) =
     [InsertOrganization 1, InsertUserRole 1, InsertUser 1] \<and>
   organizations (fst (snd (registerUser env_ok db0 alice_data))) = [acme] \<and>
   userRoles (fst (snd (registerUser env_ok db0 alice_data))) = [acme_admin] \<and>
   users (fst (snd (registerUser env_ok db0 alice_data))) = [alice]"
    by (auto simp add: db0_def alice_data_def env_ok_def hashPassword_def acme_def acme_admin_def
        alice_def)
  with h1 h2 show ?thesis by simp
qed

lemma registerUser_null_unless_Inr:
  assumes "\<And>v s'. registerUser_try e s d \<noteq> (Inr v, s')"
  shows "fst (registerUser e s d) = JNull"
proof (cases "registerUser_try e s d")
  case (Pair r s')
  with assms show ?thesis
    by (cases r) (auto simp add: registerUser_def)
qed

lemma register_route_null:
  assumes "rb_email body = Some em" "em \<noteq> []" "rb_password body = Some pw" "pw \<noteq> []"
    and "rb_username body = Some un" "un \<noteq> []"
    and "present (rb_organizationName body)" "present (rb_organizationSubdomain body)"
    and "fst (registerUser e s
               \<lparr>ud_email = em, ud_password = pw, ud_username = un,
                ud_fullName = rb_fullName body,
                ud_organizationName = rb_organizationName body,
                ud_organizationSubdomain = rb_organizationSubdomain body\<rparr>) = JNull"
  shows "fst (register_route e s req body) = Json 400 (message ''Registration failed'')"
  using assms unfolding register_route_def
  by (simp add: case_prod_unfold Let_def)

lemma register_route_no_server_error:
  assumes "req_session req \<noteq> None"
  shows "\<not> server_error (fst (register_route e s req body))"
  using assms unfolding register_route_def establish_session_def
  by (auto simp add: server_error_def case_prod_unfold Let_def
      split: option.splits)

text \<open>
  Claim C10. \<open>registerUser\<close> never throws: whatever error the \<open>try\<close> block raises, the call
  returns \<open>null\<close> and logs the error. A stored email, a missing organization name or
  subdomain, a rejected hash and a rejected statement among the six of the registration
  all end so. The register route answers a \<open>null\<close> from \<open>registerUser\<close> with the one
  response 400 \<open>Registration failed\<close>, and with a session object on the request it never
  answers in the 5xx class.
\<close>

theorem registerUser_collapses_failures:
  "(\<forall>err s'. registerUser_try e s d = (Inl err, s') \<longrightarrow>
       registerUser e s d = (JNull, s', [(''Registration error:'', err)])) \<and>
   (ud_email d \<in> u_email ` set (users s) \<longrightarrow> fst (registerUser e s d) = JNull) \<and>
   (\<not> (present (ud_organizationName d) \<and> present (ud_organizationSubdomain d)) \<longrightarrow>
       fst (registerUser e s d) = JNull) \<and>
   ((\<exists>err. hashPassword e (ud_password d) = Inl err) \<longrightarrow> fst (registerUser e s d) = JNull) \<and>
   ((\<exists>c\<in>{RegSelectExisting, RegInsertOrganization, RegInsertRole, RegSelectRole,
           RegInsertUser, RegSelectJoined}. fails e c) \<longrightarrow>
       fst (registerUser e s d) = JNull) \<and>
   (rb_email body = Some (ud_email d) \<and> ud_email d \<noteq> [] \<and>
    rb_password body = Some (ud_password d) \<and> ud_password d \<noteq> [] \<and>
    rb_username body = Some (ud_username d) \<and> ud_username d \<noteq> [] \<and>
    rb_fullName body = ud_fullName d \<and>
    rb_organizationName body = ud_organizationName d \<and> present (ud_organizationName d) \<and>
    rb_organizationSubdomain body = ud_organizationSubdomain d \<and>
    present (ud_organizationSubdomain d) \<and>
    fst (registerUser e s d) = JNull \<longrightarrow>
       fst (register_route e s req body) = Json 400 (message ''Registration failed'')) \<and>
   (req_session req \<noteq> None \<longrightarrow> \<not> server_error (fst (register_route e s req body)))"
proof (intro conjI allI impI)
  fix err s'
  assume "registerUser_try e s d = (Inl err, s')"
  then show "registerUser e s d = (JNull, s', [(''Registration error:'', err)])"
    by (simp add: registerUser_def)
next
  assume "ud_email d \<in> u_email ` set (users s)"
  then have "select_existing s (ud_email d) \<noteq> []"
    by (simp only: select_existing_nonempty)
  then show "fst (registerUser e s d) = JNull"
    by (intro registerUser_null_unless_Inr) (auto dest!: registerUser_try_Inr)
next
  assume "\<not> (present (ud_organizationName d) \<and> present (ud_organizationSubdomain d))"
  then show "fst (registerUser e s d) = JNull"
    by (intro registerUser_null_unless_Inr) (auto dest!: registerUser_try_Inr)
next
  assume "\<exists>err. hashPassword e (ud_password d) = Inl err"
  then show "fst (registerUser e s d) = JNull"
    by (intro registerUser_null_unless_Inr) (auto dest!: registerUser_try_Inr)
next
  assume "\<exists>c\<in>{RegSelectExisting, RegInsertOrganization, RegInsertRole, RegSelectRole,
           RegInsertUser, RegSelectJoined}. fails e c"
  then show "fst (registerUser e s d) = JNull"
    by (intro registerUser_null_unless_Inr) (auto dest!: registerUser_try_Inr)
next
  assume a: "rb_email body = Some (ud_email d) \<and> ud_email d \<noteq> [] \<and>
    rb_password body = Some (ud_password d) \<and> ud_password d \<noteq> [] \<and>
    rb_username body = Some (ud_username d) \<and> ud_username d \<noteq> [] \<and>
    rb_fullName body = ud_fullName d \<and>
    rb_organizationName body = ud_organizationName d \<and> present (ud_organizationName d) \<and>
    rb_organizationSubdomain body = ud_organizationSubdomain d \<and>
    present (ud_organizationSubdomain d) \<and>
    fst (registerUser e s d) = JNull"
  have d: "\<lparr>ud_email = ud_email d, ud_password = ud_password d, ud_username = ud_username d,
            ud_fullName = ud_fullName d,
            ud_organizationName = ud_organizationName d,
            ud_organizationSubdomain = ud_organizationSubdomain d\<rparr> = d"
    by simp
  show "fst (register_route e s req body) = Json 400 (message ''Registration failed'')"
    using a by (intro register_route_null [of body "ud_email d" "ud_password d" "ud_username d"])
      (simp_all add: d)
next
  assume "req_session req \<noteq> None"
  then show "\<not> server_error (fst (register_route e s req body))"
    by (rule register_route_no_server_error)
qed

theorem registerUser_collapses_failures_witness:
  "ud_email alice_data \<in> u_email ` set (users db1) \<and>
   fst (registerUser env_ok db1 alice_data) = JNull \<and>
   fst (register_route env_ok db1 fresh_request alice_body) =
     Json 400 (message ''Registration failed'') \<and>
   fails env_insert_rejected RegInsertRole \<and>
   fst (registerUser env_insert_rejected db0 alice_data) = JNull \<and>
   fst (register_route env_insert_rejected db0 fresh_request alice_body) =
     Json 400 (message ''Registration failed'')"
proof -
  have a: "ud_email alice_data \<in> u_email ` set (users db1)"
    by (simp add: alice_data_def db1_def alice_def)
  have b: "fails env_insert_rejected RegInsertRole"
    by (simp add: env_insert_rejected_def)
  have body: "rb_email alice_body = Some (ud_email alice_data) \<and> ud_email alice_data \<noteq> [] \<and>
    rb_password alice_body = Some (ud_password alice_data) \<and> ud_password alice_data \<noteq> [] \<and>
    rb_username alice_body = Some (ud_username alice_data) \<and> ud_username alice_data \<noteq> [] \<and>
    rb_fullName alice_body = ud_fullName alice_data \<and>
    rb_organizationName alice_body = ud_organizationName alice_data \<and>
    present (ud_organizationName alice_data) \<and>
    rb_organizationSubdomain alice_body = ud_organizationSubdomain alice_data \<and>
    present (ud_organizationSubdomain alice_data)"
    by (simp add: alice_body_def alice_data_def)
  note dup = registerUser_collapses_failures [of env_ok db1 alice_data alice_body fresh_request]
  note rej = registerUser_collapses_failures
    [of env_insert_rejected db0 alice_data alice_body fresh_request]
  from dup a have n1: "fst (registerUser env_ok db1 alice_data) = JNull" by blast
  from rej b have n2: "fst (registerUser env_insert_rejected db0 alice_data) = JNull" by blast
  from dup body n1 have r1: "fst (register_route env_ok db1 fresh_request alice_body) =
     Json 400 (message ''Registration failed'')" by blast
  from rej body n2 have r2: "fst (register_route env_insert_rejected db0 fresh_request alice_body) =
     Json 400 (message ''Registration failed'')" by blast
  from a b n1 n2 r1 r2 show ?thesis by simp
qed

section \<open>Properties of the middleware\<close>

lemma select_unique:
  "distinct (map k xs) \<Longrightarrow> x \<in> set xs \<Longrightarrow> [f y. y \<leftarrow> xs, k y = k x] = [f x]"
proof (induction xs)
  case Nil
  then show ?case by simp
next
  case (Cons a xs)
  show ?case
  proof (cases "a = x")
    case True
    with Cons.prems have "k x \<notin> k ` set xs" by simp
    then have "\<forall>y\<in>set xs. k y \<noteq> k x" by (metis imageI)
    then have "[f y. y \<leftarrow> xs, k y = k x] = []" by (intro select_none) blast
    with True show ?thesis by simp
  next
    case False
    with Cons.prems have "x \<in> set xs" and "k a \<noteq> k x" and "distinct (map k xs)" by auto
    with Cons.IH show ?thesis by simp
  qed
qed

lemma select_role_found:
  assumes "distinct (map r_id (userRoles s))" and "r \<in> set (userRoles s)"
  shows "select_role s (JNum (r_id r)) = [(r_name r, r_permissions r)]"
  unfolding select_role_def
  by (simp add: select_unique [OF assms, of "\<lambda>r. (r_name r, r_permissions r)"])

text \<open>
  Claim C2. For the role the lookup finds for the attached identity, and every list of
  allowed names, with the role's permission set read off the stored column (empty when
  the column is null): the gate passes when the set contains \<open>*\<close>; otherwise it passes
  exactly when the role's name is one of the allowed names or the set contains one of
  them; otherwise it answers 403 \<open>Insufficient permissions\<close>.
\<close>

theorem requireRole_decision:
  assumes "distinct (map r_id (userRoles s))" and "r \<in> set (userRoles s)"
    and "truthy (req_user req)" and "get (req_user req) ''roleId'' = JNum (r_id r)"
    and "\<not> fails e RoleSelect"
  shows "fst (requireRole allowedRoleNames e s req) =
           (if ''*'' \<in> (case r_permissions r of None \<Rightarrow> {} | Some ps \<Rightarrow> set ps) then Next
            else if \<exists>a\<in>set allowedRoleNames.
                      r_name r = a \<or>
                      a \<in> (case r_permissions r of None \<Rightarrow> {} | Some ps \<Rightarrow> set ps)
            then Next
            else Json 403 (message ''Insufficient permissions''))"
proof (cases "r_permissions r")
  case None
  then show ?thesis
    using assms(3-5) unfolding requireRole_def
    by (simp add: select_role_found [OF assms(1,2)] list_ex_iff)
next
  case (Some ps)
  then show ?thesis
    using assms(3-5) unfolding requireRole_def
    by (simp add: select_role_found [OF assms(1,2)] list_ex_iff)
qed

theorem requireRole_decision_witness:
  "fst (requireRole [''admin''] env_ok db_roles (request_with_role 2)) = Next \<and>
   fst (requireRole [''admin''] env_ok db_roles (request_with_role 1)) = Next \<and>
   fst (requireRole [''admin''] env_ok db_roles (request_with_role 3)) =
     Json 403 (message ''Insufficient permissions'') \<and>
   fst (requireRole [''admin'', ''read''] env_ok db_roles (request_with_role 3)) = Next \<and>
   fst (requireRole [''write''] env_ok db_roles (request_with_role 1)) =
     Json 403 (message ''Insufficient permissions'')"
proof -
  have d: "distinct (map r_id (userRoles db_roles))"
    by (simp add: db_roles_def plain_admin_def wildcard_guest_def viewer_def)
  have m: "wildcard_guest \<in> set (userRoles db_roles)" "plain_admin \<in> set (userRoles db_roles)"
    "viewer \<in> set (userRoles db_roles)"
    by (simp_all add: db_roles_def)
  have t: "truthy (req_user (request_with_role k))" for k
    by (simp add: request_with_role_def identity_fields_def)
  have g: "get (req_user (request_with_role 2)) ''roleId'' = JNum (r_id wildcard_guest)"
    "get (req_user (request_with_role 1)) ''roleId'' = JNum (r_id plain_admin)"
    "get (req_user (request_with_role 3)) ''roleId'' = JNum (r_id viewer)"
    by (simp_all add: request_with_role_def identity_fields_def plain_admin_def
        wildcard_guest_def viewer_def)
  have f: "\<not> fails env_ok RoleSelect" by (simp add: env_ok_def)
  have "fst (requireRole [''admin''] env_ok db_roles (request_with_role 2)) = Next"
    using requireRole_decision [OF d m(1) t g(1) f, of "[''admin'']"]
    by (simp add: wildcard_guest_def)
  moreover have "fst (requireRole [''admin''] env_ok db_roles (request_with_role 1)) = Next"
    using requireRole_decision [OF d m(2) t g(2) f, of "[''admin'']"]
    by (simp add: plain_admin_def)
  moreover have "fst (requireRole [''admin''] env_ok db_roles (request_with_role 3)) =
     Json 403 (message ''Insufficient permissions'')"
    using requireRole_decision [OF d m(3) t g(3) f, of "[''admin'']"]
    by (simp add: viewer_def)
  moreover have "fst (requireRole [''admin'', ''read''] env_ok db_roles (request_with_role 3))
     = Next"
    using requireRole_decision [OF d m(3) t g(3) f, of "[''admin'', ''read'']"]
    by (simp add: viewer_def)
  moreover have "fst (requireRole [''write''] env_ok db_roles (request_with_role 1)) =
     Json 403 (message ''Insufficient permissions'')"
    using requireRole_decision [OF d m(2) t g(2) f, of "[''write'']"]
    by (simp add: plain_admin_def)
  ultimately show ?thesis by simp
qed

text \<open>
  Claim C7, as the code has it. When the lookup runs and finds no role for the attached
  identity, the gate answers 403 \<open>No role found\<close>: a response of the client-error class,
  with the status of the permission-denied answer and a different message. The gate
  answers in the server-error class exactly when the lookup itself is rejected.
\<close>

theorem requireRole_no_role:
  assumes "truthy (req_user req)"
  shows "(\<not> fails e RoleSelect \<and> select_role s (get (req_user req) ''roleId'') = [] \<longrightarrow>
            requireRole allowedRoleNames e s req = (Json 403 (message ''No role found''), []) \<and>
            client_error (fst (requireRole allowedRoleNames e s req)) \<and>
            status_of (fst (requireRole allowedRoleNames e s req)) =
              status_of (Json 403 (message ''Insufficient permissions'')) \<and>
            fst (requireRole allowedRoleNames e s req) \<noteq>
              Json 403 (message ''Insufficient permissions'')) \<and>
         (server_error (fst (requireRole allowedRoleNames e s req)) \<longleftrightarrow> fails e RoleSelect)"
  using assms unfolding requireRole_def
  by (auto simp add: client_error_def server_error_def message_def
      split: list.splits prod.splits)

theorem requireRole_no_role_witness:
  "truthy (req_user (request_with_role 4)) \<and> \<not> fails env_ok RoleSelect \<and>
   select_role db_roles (get (req_user (request_with_role 4)) ''roleId'') = [] \<and>
   requireRole [''admin''] env_ok db_roles (request_with_role 4) =
     (Json 403 (message ''No role found''), [])"
proof -
  have t: "truthy (req_user (request_with_role 4))"
    by (simp add: request_with_role_def identity_fields_def)
  have f: "\<not> fails env_ok RoleSelect" by (simp add: env_ok_def)
  have n: "select_role db_roles (get (req_user (request_with_role 4)) ''roleId'') = []"
    by (simp add: select_role_def db_roles_def request_with_role_def identity_fields_def
        plain_admin_def wildcard_guest_def viewer_def)
  from requireRole_no_role [OF t, of env_ok db_roles "[''admin'']"] f n
  have "requireRole [''admin''] env_ok db_roles (request_with_role 4) =
     (Json 403 (message ''No role found''), [])" by blast
  with t f n show ?thesis by simp
qed

text \<open>
  Claim C7 as stated fails: for an identity whose role reference matches no role, the
  answer is in the client-error class, not the server-error class, and has the status of
  the permission-denied answer given to the viewer.
\<close>

theorem requireRole_no_role_is_client_error:
  "select_role db_roles (get (req_user (request_with_role 4)) ''roleId'') = [] \<and>
   client_error (fst (requireRole [''admin''] env_ok db_roles (request_with_role 4))) \<and>
   \<not> server_error (fst (requireRole [''admin''] env_ok db_roles (request_with_role 4))) \<and>
   status_of (fst (requireRole [''admin''] env_ok db_roles (request_with_role 4))) =
     status_of (fst (requireRole [''admin''] env_ok db_roles (request_with_role 3)))"
  by (simp add: requireRole_def select_role_def db_roles_def request_with_role_def
      identity_fields_def plain_admin_def wildcard_guest_def viewer_def env_ok_def
      client_error_def server_error_def)

lemma select_identity_Nil:
  "select_identity s (JNum uid) = [] \<longleftrightarrow>
     \<not> (\<exists>u\<in>set (users s). \<exists>org\<in>set (organizations s).
          u_organizationId u = o_id org \<and> u_id u = uid)"
  unfolding select_identity_def take1_Nil by auto

lemma select_identity_Cons:
  assumes "select_identity s (JNum uid) = r # rs"
  shows "rs = [] \<and> (\<exists>u\<in>set (users s). \<exists>org\<in>set (organizations s).
           u_organizationId u = o_id org \<and> u_id u = uid \<and> r = identity_fields u org)"
proof -
  have "r \<in> set [identity_fields u org. u \<leftarrow> users s, org \<leftarrow> organizations s,
                   u_organizationId u = o_id org, JNum (u_id u) = JNum uid]"
    using take1_Cons_mem [OF assms [unfolded select_identity_def]] .
  moreover have "rs = []"
    using take1_Cons_rest [OF assms [unfolded select_identity_def]] .
  ultimately show ?thesis by (auto split: if_splits)
qed

lemma get_identity_fields:
  "get (identity_fields u org) ''isActive'' = JBool (u_isActive u)"
  "get (identity_fields u org) ''organization'' = organization_fields org"
  "get (identity_fields u org) ''id'' = JNum (u_id u)"
  "get (organization_fields org) ''isActive'' = JBool (o_isActive org)"
  "truthy (identity_fields u org)"
  by (simp_all add: identity_fields_def organization_fields_def)

lemma loadUserContext_row:
  assumes "req_session req = Some ss" and "userId ss = JNum uid" and "0 < uid"
    and "\<not> fails e ContextSelect"
    and "select_identity s (JNum uid) = [identity_fields u org]"
  shows "fst (loadUserContext e s req) =
           (if u_isActive u \<and> o_isActive org then req\<lparr>req_user := identity_fields u org\<rparr>
            else clear_session req)"
  using assms unfolding loadUserContext_def session_userId_def
  by (simp add: get_identity_fields(1,5) Let_def)
     (simp add: identity_fields_def organization_fields_def)

lemma loadUserContext_cleared:
  assumes "req_session req = Some ss" and "userId ss = JNum uid" and "0 < uid"
    and "fails e ContextSelect \<or> select_identity s (JNum uid) = []"
  shows "fst (loadUserContext e s req) = clear_session req"
  using assms unfolding loadUserContext_def session_userId_def
  by (auto simp add: Let_def)

text \<open>
  Claim C4. For a request whose session carries a user identifier, and with identifiers
  as primary keys: when the lookup runs and the user with that identifier and its
  organization are both active, the loader attaches that user joined with that
  organization and leaves the session as it is. In every other case (no user with that
  identifier, an inactive user, an inactive organization, a rejected lookup) it removes
  the identifier from the session and passes the request on with no identity attached.
\<close>

theorem loadUserContext_decision:
  assumes ku: "distinct (map u_id (users s))" and ko: "distinct (map o_id (organizations s))"
    and ss: "req_session req = Some ss" and uid: "userId ss = JNum uid" and pos: "0 < uid"
    and fresh: "req_user req = JUndefined"
  shows "if \<not> fails e ContextSelect \<and>
            (\<exists>u\<in>set (users s). \<exists>org\<in>set (organizations s).
               u_id u = uid \<and> u_organizationId u = o_id org \<and> u_isActive u \<and> o_isActive org)
         then \<exists>u\<in>set (users s). \<exists>org\<in>set (organizations s).
                u_id u = uid \<and> u_organizationId u = o_id org \<and> u_isActive u \<and> o_isActive org \<and>
                fst (loadUserContext e s req) = req\<lparr>req_user := identity_fields u org\<rparr>
         else fst (loadUserContext e s req) = clear_session req \<and>
              session_userId (fst (loadUserContext e s req)) = JUndefined \<and>
              req_user (fst (loadUserContext e s req)) = JUndefined"
proof -
  let ?ok = "\<not> fails e ContextSelect \<and>
            (\<exists>u\<in>set (users s). \<exists>org\<in>set (organizations s).
               u_id u = uid \<and> u_organizationId u = o_id org \<and> u_isActive u \<and> o_isActive org)"
  have cleared: "session_userId (clear_session req) = JUndefined \<and>
                 req_user (clear_session req) = JUndefined"
    using ss fresh by (simp add: clear_session_def session_userId_def)
  show ?thesis
  proof (cases "fails e ContextSelect \<or> select_identity s (JNum uid) = []")
    case True
    then have no: "\<not> ?ok" using select_identity_Nil [of s uid] by blast
    have "fst (loadUserContext e s req) = clear_session req"
      using loadUserContext_cleared [OF ss uid pos True] .
    with cleared show ?thesis unfolding if_not_P [OF no] by simp
  next
    case False
    then have run: "\<not> fails e ContextSelect" by simp
    from False obtain r rs where "select_identity s (JNum uid) = r # rs"
      by (cases "select_identity s (JNum uid)") auto
    from select_identity_Cons [OF this] this
    obtain u org where u: "u \<in> set (users s)" and org: "org \<in> set (organizations s)"
      and j: "u_organizationId u = o_id org" and i: "u_id u = uid"
      and sel: "select_identity s (JNum uid) = [identity_fields u org]"
      by auto
    note row = loadUserContext_row [OF ss uid pos run sel]
    show ?thesis
    proof (cases "u_isActive u \<and> o_isActive org")
      case True
      then have ok: "?ok" using run u org j i by blast
      have "fst (loadUserContext e s req) = req\<lparr>req_user := identity_fields u org\<rparr>"
        using row True by simp
      then show ?thesis unfolding if_P [OF ok] using u org j i True by blast
    next
      case False
      have no: "\<not> ?ok"
      proof
        assume "?ok"
        then obtain u' org' where u': "u' \<in> set (users s)" "org' \<in> set (organizations s)"
          "u_id u' = uid" "u_organizationId u' = o_id org'" "u_isActive u'" "o_isActive org'"
          by blast
        have "u' = u" using distinct_key_eq [OF ku u'(1) u] u'(3) i by simp
        moreover have "org' = org" using distinct_key_eq [OF ko u'(2) org] u'(4) j \<open>u' = u\<close> by simp
        ultimately show False using u'(5,6) False by simp
      qed
      have "fst (loadUserContext e s req) = clear_session req"
        using row False by simp
      with cleared show ?thesis unfolding if_not_P [OF no] by simp
    qed
  qed
qed

theorem loadUserContext_decision_witness:
  "distinct (map u_id (users db_inactive)) \<and> distinct (map o_id (organizations db_inactive)) \<and>
   req_session fresh_request = Some \<lparr>userId = JNum 1\<rparr> \<and> (0::nat) < 1 \<and>
   req_user fresh_request = JUndefined \<and>
   session_userId (fst (loadUserContext env_ok db_inactive fresh_request)) = JUndefined \<and>
   req_user (fst (loadUserContext env_ok db_inactive fresh_request)) = JUndefined \<and>
   fst (loadUserContext env_ok db1 fresh_request) =
     fresh_request\<lparr>req_user := identity_fields alice acme\<rparr>"
proof -
  have k: "distinct (map u_id (users db_inactive))" "distinct (map o_id (organizations db_inactive))"
    "distinct (map u_id (users db1))" "distinct (map o_id (organizations db1))"
    by (simp_all add: db_inactive_def db1_def)
  have r: "req_session fresh_request = Some \<lparr>userId = JNum 1\<rparr>" "req_user fresh_request = JUndefined"
    by (simp_all add: fresh_request_def)
  have u: "userId \<lparr>userId = JNum 1\<rparr> = JNum 1" by simp
  have p: "(0::nat) < 1" by simp
  have no: "\<not> (\<not> fails env_ok ContextSelect \<and>
            (\<exists>u\<in>set (users db_inactive). \<exists>org\<in>set (organizations db_inactive).
               u_id u = 1 \<and> u_organizationId u = o_id org \<and> u_isActive u \<and> o_isActive org))"
    by (simp add: db_inactive_def db1_def)
  have ok: "\<not> fails env_ok ContextSelect \<and>
            (\<exists>u\<in>set (users db1). \<exists>org\<in>set (organizations db1).
               u_id u = 1 \<and> u_organizationId u = o_id org \<and> u_isActive u \<and> o_isActive org)"
    by (simp add: db1_def env_ok_def alice_def acme_def)
  have "session_userId (fst (loadUserContext env_ok db_inactive fresh_request)) = JUndefined \<and>
        req_user (fst (loadUserContext env_ok db_inactive fresh_request)) = JUndefined"
    using loadUserContext_decision [OF k(1,2) r(1) u p r(2), of env_ok, unfolded if_not_P [OF no]]
    by blast
  moreover have "fst (loadUserContext env_ok db1 fresh_request) =
     fresh_request\<lparr>req_user := identity_fields alice acme\<rparr>"
    using loadUserContext_decision [OF k(3,4) r(1) u p r(2), of env_ok, unfolded if_P [OF ok]]
    by (simp add: db1_def)
  ultimately show ?thesis using k r p by simp
qed

section \<open>The password hash stays inside\<close>

lemma no_password_identity_fields: "no_password (identity_fields u org)"
  by (simp add: no_password_def identity_fields_def organization_fields_def)

lemma identity_fields_password_update:
  "identity_fields (u\<lparr>u_password := h\<rparr>) org = identity_fields u org"
  by (simp add: identity_fields_def)

lemma authenticateUser_truthy:
  assumes "truthy (fst (authenticateUser e s em pw))"
  shows "\<exists>u\<in>set (users s). \<exists>org\<in>set (organizations s).
           fst (authenticateUser e s em pw) = identity_fields u org"
proof (cases "select_auth s em")
  case Nil
  with assms show ?thesis
    by (simp add: authenticateUser_def authenticateUser_try_def split: if_splits)
next
  case (Cons r rs)
  from select_auth_Cons [OF Cons]
  obtain u org where u: "u \<in> set (users s)" "org \<in> set (organizations s)"
    and r: "r = auth_fields u org" by blast
  have "fst (authenticateUser e s em pw) = identity_fields u org"
    using assms Cons unfolding r authenticateUser_def authenticateUser_try_def
    by (auto simp add: get_auth_fields_password omit_password_auth_fields
        split: if_splits sum.splits)
  with u show ?thesis by blast
qed

lemma registerUser_returns_identity:
  assumes "truthy (fst (registerUser e s d))"
  shows "\<exists>u\<in>set (users (fst (snd (registerUser e s d)))).
         \<exists>org\<in>set (organizations (fst (snd (registerUser e s d)))).
           fst (registerUser e s d) = identity_fields u org"
proof -
  let ?v = "fst (registerUser e s d)" and ?s' = "fst (snd (registerUser e s d))"
  from registerUser_try_Inr [OF registerUser_truthy [OF assms]]
  have v: "?v = first_row (select_identity ?s' (JNum (Suc (users_id_seq s))))" by blast
  with assms obtain r rs where sel: "select_identity ?s' (JNum (Suc (users_id_seq s))) = r # rs"
    by (cases "select_identity ?s' (JNum (Suc (users_id_seq s)))") auto
  with v have "?v = r" by simp
  with select_identity_Cons [OF sel] show ?thesis by blast
qed

lemma select_identity_cases:
  "select_identity s v = [] \<or>
   (\<exists>u\<in>set (users s). \<exists>org\<in>set (organizations s).
      select_identity s v = [identity_fields u org])"
proof (cases "select_identity s v")
  case Nil
  then show ?thesis by simp
next
  case (Cons r rs)
  have "r \<in> set [identity_fields u org. u \<leftarrow> users s, org \<leftarrow> organizations s,
                   u_organizationId u = o_id org, JNum (u_id u) = v]"
    using take1_Cons_mem [OF Cons [unfolded select_identity_def]] .
  moreover have "rs = []"
    using take1_Cons_rest [OF Cons [unfolded select_identity_def]] .
  ultimately show ?thesis using Cons by (auto split: if_splits)
qed

lemma session_userId_clear_session: "session_userId (clear_session req) = JUndefined"
  by (cases "req_session req") (simp_all add: clear_session_def session_userId_def)

lemma req_user_clear_session: "req_user (clear_session req) = req_user req"
  by (simp add: clear_session_def)

lemma loadUserContext_cases:
  "(\<not> truthy (session_userId req) \<and> fst (loadUserContext e s req) = req) \<or>
   fst (loadUserContext e s req) = clear_session req \<or>
   (\<exists>u\<in>set (users s). \<exists>org\<in>set (organizations s).
      fst (loadUserContext e s req) = req\<lparr>req_user := identity_fields u org\<rparr>)"
proof (cases "truthy (session_userId req)")
  case False
  then show ?thesis by (simp add: loadUserContext_def)
next
  case t: True
  show ?thesis
  proof (cases "fails e ContextSelect")
    case True
    with t show ?thesis by (simp add: loadUserContext_def)
  next
    case run: False
    from select_identity_cases [of s "session_userId req"] show ?thesis
    proof
      assume "select_identity s (session_userId req) = []"
      with t run show ?thesis by (simp add: loadUserContext_def)
    next
      assume "\<exists>u\<in>set (users s). \<exists>org\<in>set (organizations s).
                select_identity s (session_userId req) = [identity_fields u org]"
      then obtain u org where u: "u \<in> set (users s)" "org \<in> set (organizations s)"
        and sel: "select_identity s (session_userId req) = [identity_fields u org]" by blast
      have "fst (loadUserContext e s req) = clear_session req \<or>
            fst (loadUserContext e s req) = req\<lparr>req_user := identity_fields u org\<rparr>"
        using t run sel unfolding loadUserContext_def
        by (simp add: get_identity_fields(1,5) Let_def)
           (simp add: identity_fields_def organization_fields_def)
      with u show ?thesis by blast
    qed
  qed
qed

lemma loadUserContext_attaches_identity:
  "req_user (fst (loadUserContext e s req)) = req_user req \<or>
   (\<exists>u\<in>set (users s). \<exists>org\<in>set (organizations s).
      req_user (fst (loadUserContext e s req)) = identity_fields u org)"
  using loadUserContext_cases [of req e s]
  by (elim disjE conjE bexE) (simp_all add: req_user_clear_session, blast)

lemma response_no_password_message: "response_no_password (Json st (message m))"
  by (simp add: response_no_password_def message_def no_password_def)

lemma response_no_password_summary:
  "response_no_password (Json st (JObj [(''user'', user_summary (identity_fields u org))]))"
  by (simp add: response_no_password_def no_password_def user_summary_def
      identity_fields_def organization_fields_def)

lemma establish_session_no_password:
  "response_no_password (fst (establish_session label failed req (identity_fields u org)))"
  unfolding establish_session_def
  by (cases "req_session req")
     (simp_all add: response_no_password_message response_no_password_summary)

lemma login_route_no_password: "response_no_password (fst (login_route e s req body))"
proof (cases "present (lb_email body) \<and> present (lb_password body)")
  case False
  then show ?thesis
    unfolding login_route_def by (auto simp add: response_no_password_message)
next
  case True
  then obtain em pw where b: "lb_email body = Some em" "lb_password body = Some pw"
    by (cases "lb_email body"; cases "lb_password body") auto
  show ?thesis
  proof (cases "truthy (fst (authenticateUser e s em pw))")
    case False
    then show ?thesis
      unfolding login_route_def using True b
      by (simp add: case_prod_unfold Let_def response_no_password_message)
  next
    case t: True
    from authenticateUser_truthy [OF t] obtain u org where
      "fst (authenticateUser e s em pw) = identity_fields u org" by blast
    then show ?thesis
      unfolding login_route_def using True b t
      by (simp add: case_prod_unfold Let_def establish_session_no_password)
  qed
qed

lemma register_route_no_password: "response_no_password (fst (register_route e s req body))"
proof (cases "present (rb_email body) \<and> present (rb_password body) \<and> present (rb_username body)
              \<and> present (rb_organizationName body) \<and> present (rb_organizationSubdomain body)")
  case False
  then show ?thesis
    unfolding register_route_def by (auto simp add: response_no_password_message)
next
  case True
  then obtain em pw un where b: "rb_email body = Some em" "rb_password body = Some pw"
    "rb_username body = Some un"
    by (cases "rb_email body"; cases "rb_password body"; cases "rb_username body") auto
  let ?d = "\<lparr>ud_email = em, ud_password = pw, ud_username = un,
             ud_fullName = rb_fullName body,
             ud_organizationName = rb_organizationName body,
             ud_organizationSubdomain = rb_organizationSubdomain body\<rparr>"
  show ?thesis
  proof (cases "truthy (fst (registerUser e s ?d))")
    case False
    then show ?thesis
      unfolding register_route_def using True b
      by (simp add: case_prod_unfold Let_def response_no_password_message)
  next
    case t: True
    from registerUser_returns_identity [OF t] obtain u org where
      "fst (registerUser e s ?d) = identity_fields u org" by blast
    then show ?thesis
      unfolding register_route_def using True b t
      by (simp add: case_prod_unfold Let_def establish_session_no_password)
  qed
qed

lemma loadUserContext_session_or_identity:
  "\<not> truthy (session_userId (fst (loadUserContext e s req))) \<or>
   (\<exists>u\<in>set (users s). \<exists>org\<in>set (organizations s).
      req_user (fst (loadUserContext e s req)) = identity_fields u org)"
  using loadUserContext_cases [of req e s]
  by (elim disjE conjE bexE) (simp_all add: session_userId_clear_session, blast)

lemma me_route_no_password: "response_no_password (fst (me_route e s req))"
proof -
  let ?req = "fst (loadUserContext e s req)"
  from loadUserContext_session_or_identity [of e s req]
  show ?thesis
  proof
    assume "\<not> truthy (session_userId ?req)"
    then show ?thesis
      unfolding me_route_def requireAuth_def
      by (simp add: case_prod_unfold Let_def response_no_password_message)
  next
    assume "\<exists>u\<in>set (users s). \<exists>org\<in>set (organizations s). req_user ?req = identity_fields u org"
    then obtain u org where "req_user ?req = identity_fields u org" by blast
    then show ?thesis
      unfolding me_route_def requireAuth_def
      by (simp add: case_prod_unfold Let_def response_no_password_message response_no_password_summary)
  qed
qed

lemma user_summary_identity_fields:
  "user_summary (identity_fields u org) = user_view u org"
  by (cases "u_fullName u")
     (simp_all add: user_summary_def identity_fields_def organization_fields_def user_view_def)

lemma establish_session_answer:
  "fst (establish_session label failed req (identity_fields u org)) = Json 500 (message failed) \<or>
   fst (establish_session label failed req (identity_fields u org)) =
     Json 200 (JObj [(''user'', user_view u org)])"
  unfolding establish_session_def
  by (cases "req_session req") (simp_all add: user_summary_identity_fields)

lemma register_route_answer:
  "fst (register_route e s req body) \<in>
     {Json 400 (message ''Email, password, and username are required''),
      Json 400 (message ''Organization name and subdomain are required''),
      Json 400 (message ''Registration failed''),
      Json 500 (message ''Registration failed'')} \<or>
   (\<exists>u\<in>set (users (fst (snd (snd (register_route e s req body))))).
    \<exists>org\<in>set (organizations (fst (snd (snd (register_route e s req body))))).
      fst (register_route e s req body) = Json 200 (JObj [(''user'', user_view u org)]))"
proof (cases "present (rb_email body) \<and> present (rb_password body) \<and> present (rb_username body)
              \<and> present (rb_organizationName body) \<and> present (rb_organizationSubdomain body)")
  case False
  then show ?thesis
    unfolding register_route_def by auto
next
  case True
  then obtain em pw un where b: "rb_email body = Some em" "rb_password body = Some pw"
    "rb_username body = Some un"
    by (cases "rb_email body"; cases "rb_password body"; cases "rb_username body") auto
  let ?d = "\<lparr>ud_email = em, ud_password = pw, ud_username = un,
             ud_fullName = rb_fullName body,
             ud_organizationName = rb_organizationName body,
             ud_organizationSubdomain = rb_organizationSubdomain body\<rparr>"
  show ?thesis
  proof (cases "truthy (fst (registerUser e s ?d))")
    case False
    then show ?thesis
      unfolding register_route_def using True b
      by (simp add: case_prod_unfold Let_def)
  next
    case t: True
    from registerUser_returns_identity [OF t] obtain u org where
      u: "u \<in> set (users (fst (snd (registerUser e s ?d))))"
         "org \<in> set (organizations (fst (snd (registerUser e s ?d))))"
      and v: "fst (registerUser e s ?d) = identity_fields u org" by blast
    have db: "fst (snd (snd (register_route e s req body))) = fst (snd (registerUser e s ?d))"
      unfolding register_route_def using True b t
      by (simp add: case_prod_unfold Let_def)
    have ans: "fst (register_route e s req body) =
                 fst (establish_session ''Registration error:'' ''Registration failed'' req
                        (identity_fields u org))"
      unfolding register_route_def using True b t v
      by (simp add: case_prod_unfold Let_def)
    from establish_session_answer [of "''Registration error:''" "''Registration failed''" req u org]
    show ?thesis
    proof
      assume "fst (establish_session ''Registration error:'' ''Registration failed'' req
                (identity_fields u org)) = Json 500 (message ''Registration failed'')"
      with ans show ?thesis by simp
    next
      assume "fst (establish_session ''Registration error:'' ''Registration failed'' req
                (identity_fields u org)) = Json 200 (JObj [(''user'', user_view u org)])"
      with ans u db show ?thesis by auto
    qed
  qed
qed

lemma login_route_answer:
  "fst (login_route e s req body) \<in>
     {Json 400 (message ''Email and password are required''),
      Json 401 (message ''Invalid credentials''),
      Json 500 (message ''Login failed'')} \<or>
   (\<exists>u\<in>set (users s). \<exists>org\<in>set (organizations s).
      fst (login_route e s req body) = Json 200 (JObj [(''user'', user_view u org)]))"
proof (cases "present (lb_email body) \<and> present (lb_password body)")
  case False
  then show ?thesis
    unfolding login_route_def by auto
next
  case True
  then obtain em pw where b: "lb_email body = Some em" "lb_password body = Some pw"
    by (cases "lb_email body"; cases "lb_password body") auto
  show ?thesis
  proof (cases "truthy (fst (authenticateUser e s em pw))")
    case False
    then show ?thesis
      unfolding login_route_def using True b
      by (simp add: case_prod_unfold Let_def)
  next
    case t: True
    from authenticateUser_truthy [OF t] obtain u org where
      u: "u \<in> set (users s)" "org \<in> set (organizations s)"
      and v: "fst (authenticateUser e s em pw) = identity_fields u org" by blast
    have ans: "fst (login_route e s req body) =
                 fst (establish_session ''Login error:'' ''Login failed'' req
                        (identity_fields u org))"
      unfolding login_route_def using True b t v
      by (simp add: case_prod_unfold Let_def)
    from establish_session_answer [of "''Login error:''" "''Login failed''" req u org]
    show ?thesis
    proof
      assume "fst (establish_session ''Login error:'' ''Login failed'' req
                (identity_fields u org)) = Json 500 (message ''Login failed'')"
      with ans show ?thesis by simp
    next
      assume "fst (establish_session ''Login error:'' ''Login failed'' req
                (identity_fields u org)) = Json 200 (JObj [(''user'', user_view u org)])"
      with ans u show ?thesis by auto
    qed
  qed
qed

lemma me_route_answer:
  "fst (me_route e s req) \<in>
     {Json 401 (message ''Authentication required''),
      Json 401 (message ''Not authenticated'')} \<or>
   (\<exists>u\<in>set (users s). \<exists>org\<in>set (organizations s).
      fst (me_route e s req) = Json 200 (JObj [(''user'', user_view u org)]))"
proof -
  let ?req = "fst (loadUserContext e s req)"
  from loadUserContext_session_or_identity [of e s req]
  show ?thesis
  proof
    assume "\<not> truthy (session_userId ?req)"
    then show ?thesis
      unfolding me_route_def requireAuth_def
      by (simp add: case_prod_unfold Let_def)
  next
    assume "\<exists>u\<in>set (users s). \<exists>org\<in>set (organizations s). req_user ?req = identity_fields u org"
    then obtain u org where u: "u \<in> set (users s)" "org \<in> set (organizations s)"
      and v: "req_user ?req = identity_fields u org" by blast
    have "fst (me_route e s req) = Json 401 (message ''Authentication required'') \<or>
          fst (me_route e s req) = Json 200 (JObj [(''user'', user_view u org)])"
      unfolding me_route_def requireAuth_def using v
      by (simp add: case_prod_unfold Let_def get_identity_fields(5)
          user_summary_identity_fields)
    with u show ?thesis by auto
  qed
qed

lemma logout_route_answer:
  "fst (logout_route err req) \<in>
     {None, Some (Json 500 (message ''Logout failed'')),
      Some (Json 200 (message ''Logged out successfully''))}"
  unfolding logout_route_def
  by (cases "req_session req"; cases err) simp_all

lemma user_view_password_update: "user_view (u\<lparr>u_password := h\<rparr>) org = user_view u org"
  by (simp add: user_view_def)

text \<open>
  Claim C6. The value \<open>authenticateUser\<close> and \<open>registerUser\<close> return and the value the
  loader attaches carry no password property, and when they are an identity they are the
  password-free select list of a stored user and its organization, which does not
  depend on the stored hash. Every answer of the register, login and me routes is one of
  their fixed messages or status 200 with \<open>{ user: v }\<close>, where \<open>v\<close> shows of a stored
  user and its organization the identifier, email, username, display name and the
  organization's columns and nothing else, whatever the stored hash is; every answer of
  the logout route is one of its two fixed messages.
\<close>

theorem password_hash_stays_inside:
  "no_password (fst (authenticateUser e s em pw)) \<and>
   (truthy (fst (authenticateUser e s em pw)) \<longrightarrow>
      (\<exists>u\<in>set (users s). \<exists>org\<in>set (organizations s).
         fst (authenticateUser e s em pw) = identity_fields u org)) \<and>
   no_password (fst (registerUser e s d)) \<and>
   (truthy (fst (registerUser e s d)) \<longrightarrow>
      (\<exists>u\<in>set (users (fst (snd (registerUser e s d)))).
       \<exists>org\<in>set (organizations (fst (snd (registerUser e s d)))).
         fst (registerUser e s d) = identity_fields u org)) \<and>
   (req_user (fst (loadUserContext e s req)) = req_user req \<or>
      (\<exists>u\<in>set (users s). \<exists>org\<in>set (organizations s).
         req_user (fst (loadUserContext e s req)) = identity_fields u org \<and>
         no_password (req_user (fst (loadUserContext e s req))))) \<and>
   (\<forall>u org h. identity_fields (u\<lparr>u_password := h\<rparr>) org = identity_fields u org) \<and>
   response_no_password (fst (register_route e s req rbody)) \<and>
   response_no_password (fst (login_route e s req lbody)) \<and>
   response_no_password (fst (me_route e s req)) \<and>
   (fst (register_route e s req rbody) \<in>
      {Json 400 (message ''Email, password, and username are required''),
       Json 400 (message ''Organization name and subdomain are required''),
       Json 400 (message ''Registration failed''),
       Json 500 (message ''Registration failed'')} \<or>
    (\<exists>u\<in>set (users (fst (snd (snd (register_route e s req rbody))))).
     \<exists>org\<in>set (organizations (fst (snd (snd (register_route e s req rbody))))).
       fst (register_route e s req rbody) = Json 200 (JObj [(''user'', user_view u org)]))) \<and>
   (fst (login_route e s req lbody) \<in>
      {Json 400 (message ''Email and password are required''),
       Json 401 (message ''Invalid credentials''),
       Json 500 (message ''Login failed'')} \<or>
    (\<exists>u\<in>set (users s). \<exists>org\<in>set (organizations s).
       fst (login_route e s req lbody) = Json 200 (JObj [(''user'', user_view u org)]))) \<and>
   (fst (me_route e s req) \<in>
      {Json 401 (message ''Authentication required''),
       Json 401 (message ''Not authenticated'')} \<or>
    (\<exists>u\<in>set (users s). \<exists>org\<in>set (organizations s).
       fst (me_route e s req) = Json 200 (JObj [(''user'', user_view u org)]))) \<and>
   fst (logout_route err req) \<in>
      {None, Some (Json 500 (message ''Logout failed'')),
       Some (Json 200 (message ''Logged out successfully''))} \<and>
   (\<forall>u org h. user_view (u\<lparr>u_password := h\<rparr>) org = user_view u org)"
proof -
  have a1: "truthy (fst (authenticateUser e s em pw)) \<longrightarrow>
      (\<exists>u\<in>set (users s). \<exists>org\<in>set (organizations s).
         fst (authenticateUser e s em pw) = identity_fields u org)"
    using authenticateUser_truthy by blast
  have a0: "no_password (fst (authenticateUser e s em pw))"
  proof (cases "truthy (fst (authenticateUser e s em pw))")
    case True
    with a1 show ?thesis by (auto simp add: no_password_identity_fields)
  next
    case False
    then show ?thesis
      by (cases "fst (authenticateUser e s em pw)") (simp_all add: no_password_def)
  qed
  have r1: "truthy (fst (registerUser e s d)) \<longrightarrow>
      (\<exists>u\<in>set (users (fst (snd (registerUser e s d)))).
       \<exists>org\<in>set (organizations (fst (snd (registerUser e s d)))).
         fst (registerUser e s d) = identity_fields u org)"
    using registerUser_returns_identity by blast
  have r0: "no_password (fst (registerUser e s d))"
  proof (cases "truthy (fst (registerUser e s d))")
    case True
    with r1 show ?thesis by (auto simp add: no_password_identity_fields)
  next
    case False
    then show ?thesis
      by (cases "fst (registerUser e s d)") (simp_all add: no_password_def)
  qed
  have l: "req_user (fst (loadUserContext e s req)) = req_user req \<or>
      (\<exists>u\<in>set (users s). \<exists>org\<in>set (organizations s).
         req_user (fst (loadUserContext e s req)) = identity_fields u org \<and>
         no_password (req_user (fst (loadUserContext e s req))))"
    using loadUserContext_attaches_identity [of e s req]
    by (auto simp add: no_password_identity_fields)
  have i: "\<forall>u org h. identity_fields (u\<lparr>u_password := h\<rparr>) org = identity_fields u org"
    by (simp add: identity_fields_password_update)
  have v: "\<forall>u org h. user_view (u\<lparr>u_password := h\<rparr>) org = user_view u org"
    by (simp add: user_view_password_update)
  from a0 a1 r0 r1 l i register_route_no_password [of e s req rbody]
    login_route_no_password [of e s req lbody] me_route_no_password [of e s req]
    register_route_answer [of e s req rbody] login_route_answer [of e s req lbody]
    me_route_answer [of e s req] logout_route_answer [of err req] v
  show ?thesis by (intro conjI)
qed

theorem password_hash_stays_inside_witness:
  "truthy (fst (authenticateUser env_ok db1 ''a@x.com'' ''pw123456'')) \<and>
   truthy (fst (registerUser env_ok db0 alice_data)) \<and>
   no_password (fst (authenticateUser env_ok db1 ''a@x.com'' ''pw123456'')) \<and>
   no_password (fst (registerUser env_ok db0 alice_data)) \<and>
   (\<exists>u\<in>set (users db1). \<exists>org\<in>set (organizations db1).
      fst (authenticateUser env_ok db1 ''a@x.com'' ''pw123456'') = identity_fields u org) \<and>
   fst (login_route env_ok db1 fresh_request
      \<lparr>lb_email = Some ''a@x.com'', lb_password = Some ''pw123456''\<rparr>) =
     Json 200 (JObj [(''user'', user_view alice acme)]) \<and>
   fst (register_route env_ok db0 fresh_request alice_body) =
     Json 200 (JObj [(''user'', user_view alice acme)]) \<and>
   fst (me_route env_ok db1 fresh_request) =
     Json 200 (JObj [(''user'', user_view alice acme)])"
proof -
  let ?lb = "\<lparr>lb_email = Some ''a@x.com'', lb_password = Some ''pw123456''\<rparr>"
  have t1: "truthy (fst (authenticateUser env_ok db1 ''a@x.com'' ''pw123456''))"
    by (simp add: authenticateUser_def authenticateUser_try_def select_auth_def db1_def
        alice_def acme_def comparePassword_def env_ok_def auth_fields_def)
  have t2: "truthy (fst (registerUser env_ok db0 alice_data))"
    by (simp add: registerUser_def registerUser_try_def hashPassword_def env_ok_def db0_def
        alice_data_def select_existing_def insert_organization_def insert_userRole_def
        insert_user_def select_admin_role_def select_identity_def identity_fields_def Let_def)
  note T = password_hash_stays_inside [where e = env_ok and s = db1 and em = "''a@x.com''"
      and pw = "''pw123456''" and d = alice_data and req = fresh_request
      and rbody = alice_body and lbody = ?lb and err = None]
  note U = password_hash_stays_inside [where e = env_ok and s = db0 and em = "''a@x.com''"
      and pw = "''pw123456''" and d = alice_data and req = fresh_request
      and rbody = alice_body and lbody = ?lb and err = None]
  have l200: "status_of (fst (login_route env_ok db1 fresh_request ?lb)) = Some 200"
    by (simp add: login_route_def session_userId_def fresh_request_def establish_session_def
        authenticateUser_def authenticateUser_try_def select_auth_def db1_def alice_def
        acme_def comparePassword_def env_ok_def auth_fields_def Let_def)
  have m200: "status_of (fst (me_route env_ok db1 fresh_request)) = Some 200"
    by (simp add: me_route_def loadUserContext_def requireAuth_def session_userId_def
        fresh_request_def select_identity_def db1_def alice_def acme_def env_ok_def
        identity_fields_def organization_fields_def Let_def)
  have r200: "status_of (fst (register_route env_ok db0 fresh_request alice_body)) = Some 200"
    by (simp add: register_route_def registerUser_def registerUser_try_def
        hashPassword_def env_ok_def db0_def alice_body_def fresh_request_def
        establish_session_def select_existing_def insert_organization_def
        insert_userRole_def insert_user_def select_admin_role_def select_identity_def
        identity_fields_def Let_def)
  have rdb: "fst (snd (snd (register_route env_ok db0 fresh_request alice_body))) = db1"
    by (simp add: register_route_def registerUser_def registerUser_try_def
        hashPassword_def env_ok_def db0_def db1_def alice_def acme_def acme_admin_def
        alice_body_def fresh_request_def establish_session_def select_existing_def
        insert_organization_def insert_userRole_def insert_user_def select_admin_role_def
        select_identity_def identity_fields_def Let_def)
  have one: "set (users db1) = {alice}" "set (organizations db1) = {acme}"
    by (simp_all add: db1_def)
  from T have a0: "no_password (fst (authenticateUser env_ok db1 ''a@x.com'' ''pw123456''))"
    by (elim conjE)
  from T have "truthy (fst (authenticateUser env_ok db1 ''a@x.com'' ''pw123456'')) \<longrightarrow>
      (\<exists>u\<in>set (users db1). \<exists>org\<in>set (organizations db1).
         fst (authenticateUser env_ok db1 ''a@x.com'' ''pw123456'') = identity_fields u org)"
    by (elim conjE)
  with t1 have a1: "\<exists>u\<in>set (users db1). \<exists>org\<in>set (organizations db1).
      fst (authenticateUser env_ok db1 ''a@x.com'' ''pw123456'') = identity_fields u org"
    by (rule rev_mp)
  from U have r0: "no_password (fst (registerUser env_ok db0 alice_data))"
    by (elim conjE)
  from T have "fst (login_route env_ok db1 fresh_request ?lb) \<in>
      {Json 400 (message ''Email and password are required''),
       Json 401 (message ''Invalid credentials''),
       Json 500 (message ''Login failed'')} \<or>
    (\<exists>u\<in>set (users db1). \<exists>org\<in>set (organizations db1).
       fst (login_route env_ok db1 fresh_request ?lb) =
         Json 200 (JObj [(''user'', user_view u org)]))"
    by (elim conjE)
  with l200 have lg: "fst (login_route env_ok db1 fresh_request ?lb) =
     Json 200 (JObj [(''user'', user_view alice acme)])"
    unfolding one by auto
  from T have "fst (me_route env_ok db1 fresh_request) \<in>
      {Json 401 (message ''Authentication required''),
       Json 401 (message ''Not authenticated'')} \<or>
    (\<exists>u\<in>set (users db1). \<exists>org\<in>set (organizations db1).
       fst (me_route env_ok db1 fresh_request) = Json 200 (JObj [(''user'', user_view u org)]))"
    by (elim conjE)
  with m200 have me: "fst (me_route env_ok db1 fresh_request) =
     Json 200 (JObj [(''user'', user_view alice acme)])"
    unfolding one by auto
  from U have "fst (register_route env_ok db0 fresh_request alice_body) \<in>
      {Json 400 (message ''Email, password, and username are required''),
       Json 400 (message ''Organization name and subdomain are required''),
       Json 400 (message ''Registration failed''),
       Json 500 (message ''Registration failed'')} \<or>
    (\<exists>u\<in>set (users (fst (snd (snd (register_route env_ok db0 fresh_request alice_body))))).
     \<exists>org\<in>set (organizations (fst (snd (snd (register_route env_ok db0 fresh_request
                                                  alice_body))))).
       fst (register_route env_ok db0 fresh_request alice_body) =
         Json 200 (JObj [(''user'', user_view u org)]))"
    by (elim conjE)
  with r200 have rg: "fst (register_route env_ok db0 fresh_request alice_body) =
     Json 200 (JObj [(''user'', user_view alice acme)])"
    unfolding rdb one by auto
  from t1 t2 a0 r0 a1 lg rg me show ?thesis by (intro conjI)
qed

end
